theory Spec2Isabelle
  imports Complex_Main
begin

chapter \<open>The model\<close>

section \<open>JavaScript values, exceptions and HTTP responses\<close>

text \<open>
  The backend is JavaScript. Request payloads and database rows are dynamically typed, so
  the fields the code tests with \<open>!x\<close>, \<open>x || d\<close>, \<open>typeof\<close> or
  \<open>Number.isInteger\<close> are values of \<open>jsval\<close>. A finite number is the rational it
  denotes (every finite IEEE double is one); the arithmetic of the reports rounds its
  results to doubles, see \<open>fl\<close> below.
\<close>

datatype jsval =
    JUndefined
  | JNull
  | JBool bool
  | JNum rat
  | JNaN
  | JInf bool
  | JStr string
  | JObj

text \<open>ToBoolean: what \<open>if (x)\<close>, \<open>!x\<close>, \<open>x && y\<close> and \<open>x || y\<close> test.\<close>

fun truthy :: "jsval \<Rightarrow> bool" where
  "truthy JUndefined = False"
| "truthy JNull = False"
| "truthy (JBool b) = b"
| "truthy (JNum r) = (r \<noteq> 0)"
| "truthy JNaN = False"
| "truthy (JInf _) = True"
| "truthy (JStr s) = (s \<noteq> [])"
| "truthy JObj = True"

text \<open>\<open>a || b\<close> on values.\<close>

definition js_or :: "jsval \<Rightarrow> jsval \<Rightarrow> jsval" where
  "js_or a b = (if truthy a then a else b)"

text \<open>A thrown \<open>Error\<close> (or \<open>TypeError\<close>) with its \<open>message\<close>.\<close>

datatype exn = Error string | TypeError string

fun message :: "exn \<Rightarrow> string" where
  "message (Error m) = m"
| "message (TypeError m) = m"

text \<open>
  The envelope of \<open>ResponseHelper\<close> (responseHelper.js): \<open>res.status(code).json({success,
  message, data | errors, timestamp})\<close>. The timestamp is left out.
\<close>

record ('d, 'e) response =
  status :: nat
  success :: bool
  msg :: string
  data :: "'d option"
  errors :: "'e option"

definition ResponseHelper_success :: "'d option \<Rightarrow> string \<Rightarrow> nat \<Rightarrow> ('d, 'e) response" where
  "ResponseHelper_success d m statusCode =
     \<lparr>status = statusCode, success = True, msg = m, data = d, errors = None\<rparr>"

definition ResponseHelper_error :: "string \<Rightarrow> nat \<Rightarrow> 'e option \<Rightarrow> ('d, 'e) response" where
  "ResponseHelper_error m statusCode errs =
     \<lparr>status = statusCode, success = False, msg = m, data = None, errors = errs\<rparr>"

definition ResponseHelper_validationError :: "string \<Rightarrow> ('d, 'e) response" where
  "ResponseHelper_validationError m = ResponseHelper_error m 400 None"

definition ResponseHelper_unauthorized :: "string \<Rightarrow> ('d, 'e) response" where
  "ResponseHelper_unauthorized m = ResponseHelper_error m 401 None"

definition ResponseHelper_forbidden :: "string \<Rightarrow> ('d, 'e) response" where
  "ResponseHelper_forbidden m = ResponseHelper_error m 403 None"

section \<open>Admin model (models/Admin.js)\<close>

text \<open>
  A row of the \<open>admins\<close> table and an \<open>Admin\<close> instance have the same fields; a field the
  row does not have is \<open>JUndefined\<close>.
\<close>

record admin =
  admin_id :: jsval
  username :: jsval
  email :: jsval
  password_hash :: jsval
  role :: jsval
  is_active :: jsval
  last_login :: jsval
  created_at :: jsval
  updated_at :: jsval

text \<open>The constructor: \<open>role\<close> defaults to \<open>'admin'\<close>, \<open>is_active\<close> to \<open>true\<close>.\<close>

definition Admin_new :: "admin \<Rightarrow> admin" where
  "Admin_new d =
     d\<lparr>role := js_or (role d) (JStr ''admin''),
       is_active := (if is_active d \<noteq> JUndefined then is_active d else JBool True)\<rparr>"

text \<open>A plain transport object: its keys in the order the code writes them.\<close>

type_synonym json = "(string \<times> jsval) list"


text \<open>
  \<open>toJSON(includePassword = false)\<close>: the argument is whatever the caller passes, the
  default stands in when it is \<open>undefined\<close> (or absent), and \<open>if (includePassword)\<close>
  tests its truthiness.
\<close>

definition Admin_toJSON :: "admin \<Rightarrow> jsval \<Rightarrow> json" where
  "Admin_toJSON a arg =
     (let includePassword = (if arg = JUndefined then JBool False else arg)
      in [(''id'', admin_id a),
          (''username'', username a),
          (''email'', email a),
          (''role'', role a),
          (''is_active'', is_active a),
          (''last_login'', last_login a),
          (''created_at'', created_at a),
          (''updated_at'', updated_at a)]
         @ (if truthy includePassword then [(''password_hash'', password_hash a)] else []))"


text \<open>An active super-admin row, used as a concrete input below.\<close>

definition root_admin :: admin where
  "root_admin =
     \<lparr>admin_id = JStr ''a1'', username = JStr ''root'', email = JStr ''root@campus.edu'',
      password_hash = JStr ''$2b$12$abc'', role = JStr ''super_admin'',
      is_active = JBool True, last_login = JNull, created_at = JStr ''2024-01-01'',
      updated_at = JStr ''2024-01-01''\<rparr>"

section \<open>Numbers and strings of the validators\<close>

text \<open>\<open>Number.isInteger\<close>: false for every value that is not a finite integral number.\<close>

fun Number_isInteger :: "jsval \<Rightarrow> bool" where
  "Number_isInteger (JNum r) = (of_int \<lfloor>r\<rfloor> = r)"
| "Number_isInteger _ = False"

fun is_string :: "jsval \<Rightarrow> bool" where
  "is_string (JStr _) = True"
| "is_string _ = False"

text \<open>
  A string is the UTF-8 encoding of the JavaScript string. \<open>String.prototype.trim\<close>
  strips the white space and line terminators of the language at both ends: U+0009 to
  U+000D, U+0020, U+00A0, U+1680, U+2000 to U+200A, U+2028, U+2029, U+202F, U+205F,
  U+3000 and U+FEFF, listed here by their encodings.
\<close>

definition whitespace :: "string list" where
  "whitespace =
     [[CHR 0x09], [CHR 0x0A], [CHR 0x0B], [CHR 0x0C], [CHR 0x0D], [CHR 0x20],
      [CHR 0xC2, CHR 0xA0],
      [CHR 0xE1, CHR 0x9A, CHR 0x80],
      [CHR 0xE2, CHR 0x80, CHR 0x80], [CHR 0xE2, CHR 0x80, CHR 0x81],
      [CHR 0xE2, CHR 0x80, CHR 0x82], [CHR 0xE2, CHR 0x80, CHR 0x83],
      [CHR 0xE2, CHR 0x80, CHR 0x84], [CHR 0xE2, CHR 0x80, CHR 0x85],
      [CHR 0xE2, CHR 0x80, CHR 0x86], [CHR 0xE2, CHR 0x80, CHR 0x87],
      [CHR 0xE2, CHR 0x80, CHR 0x88], [CHR 0xE2, CHR 0x80, CHR 0x89],
      [CHR 0xE2, CHR 0x80, CHR 0x8A],
      [CHR 0xE2, CHR 0x80, CHR 0xA8], [CHR 0xE2, CHR 0x80, CHR 0xA9],
      [CHR 0xE2, CHR 0x80, CHR 0xAF],
      [CHR 0xE2, CHR 0x81, CHR 0x9F],
      [CHR 0xE3, CHR 0x80, CHR 0x80],
      [CHR 0xEF, CHR 0xBB, CHR 0xBF]]"

text \<open>
  Stripping at the front every leading sequence among \<open>ws\<close>, each of one, two or three
  bytes; the end of a string is the front of its reversal.
\<close>

fun strip :: "string list \<Rightarrow> string \<Rightarrow> string" where
  "strip ws [] = []"
| "strip ws (c # cs) =
     (if [c] \<in> set ws then strip ws cs
      else if take 2 (c # cs) \<in> set ws then strip ws (drop 1 cs)
      else if take 3 (c # cs) \<in> set ws then strip ws (drop 2 cs)
      else c # cs)"

definition trim :: "string \<Rightarrow> string" where
  "trim s = rev (strip (map rev whitespace) (rev (strip whitespace s)))"

text \<open>
  \<open>.length\<close> counts UTF-16 code units: one for each code point, which is each byte that
  is not a continuation byte (\<open>10xxxxxx\<close>), and one more for a code point beyond U+FFFF,
  whose encoding starts with a byte from \<open>0xF0\<close>.
\<close>

definition js_length :: "string \<Rightarrow> nat" where
  "js_length s =
     length (filter (\<lambda>c. \<not> (0x80 \<le> (of_char c :: nat) \<and> (of_char c :: nat) < 0xC0)) s)
     + length (filter (\<lambda>c. 0xF0 \<le> (of_char c :: nat)) s)"

text \<open>
  \<open>!v || v.trim().length < n\<close>: a falsy value is too short, a string is measured, and
  any other truthy value has no \<open>trim\<close> method, which throws a \<open>TypeError\<close>.
\<close>

fun too_short :: "string \<Rightarrow> jsval \<Rightarrow> nat \<Rightarrow> exn + bool" where
  "too_short field (JStr s) n = Inr (s = [] \<or> js_length (trim s) < n)"
| "too_short field v n =
     (if truthy v then Inl (TypeError (''data.'' @ field @ ''.trim is not a function''))
      else Inr True)"

section \<open>Feedback model (models/Feedback.js)\<close>

record feedback =
  fb_id :: jsval
  fb_student_id :: jsval
  fb_event_id :: jsval
  rating :: jsval
  comments :: jsval
  submitted_at :: jsval
  fb_created_at :: jsval
  fb_updated_at :: jsval

definition MIN_RATING :: rat where
  "MIN_RATING = 1"

definition MAX_RATING :: rat where
  "MAX_RATING = 5"

text \<open>
  \<open>Number.isInteger(rating) && rating >= MIN_RATING && rating <= MAX_RATING\<close>: the
  comparisons are reached by finite numbers only.
\<close>

fun Feedback_validateRating :: "jsval \<Rightarrow> bool" where
  "Feedback_validateRating (JNum r) =
     (Number_isInteger (JNum r) \<and> r \<ge> MIN_RATING \<and> r \<le> MAX_RATING)"
| "Feedback_validateRating _ = False"

text \<open>
  \<open>ValidationService.isValidRating\<close>: \<open>typeof rating === 'number' && rating >= 1 &&
  rating <= 5 && Number.isInteger(rating)\<close>. \<open>NaN\<close> fails the first comparison,
  \<open>Infinity\<close> the second, \<open>-Infinity\<close> the first.
\<close>

fun ValidationService_isValidRating :: "jsval \<Rightarrow> bool" where
  "ValidationService_isValidRating (JNum r) = (r \<ge> 1 \<and> r \<le> 5 \<and> Number_isInteger (JNum r))"
| "ValidationService_isValidRating _ = False"

text \<open>
  \<open>Feedback.create(data)\<close>; \<open>now\<close> is \<open>new Date().toISOString()\<close>. The constructor
  copies the fields.
\<close>

definition Feedback_create :: "string \<Rightarrow> feedback \<Rightarrow> exn + feedback" where
  "Feedback_create now d =
     (if \<not> truthy (fb_student_id d) then Inl (Error ''Student ID is required'')
      else if \<not> truthy (fb_event_id d) then Inl (Error ''Event ID is required'')
      else if \<not> truthy (rating d) \<or> \<not> Feedback_validateRating (rating d)
        then Inl (Error ''Rating must be an integer between 1 and 5'')
      else if truthy (comments d) \<and> \<not> is_string (comments d)
        then Inl (Error ''Comments must be a string'')
      else Inr (d\<lparr>submitted_at := js_or (submitted_at d) (JStr now)\<rparr>))"

text \<open>
  The static methods of class \<open>Feedback\<close> that test a rating, by name: the class defines
  \<open>validateRating\<close> and no other. Calling a property that is not there throws a
  \<open>TypeError\<close> (the message is V8's).
\<close>

definition Feedback_static :: "string \<Rightarrow> (jsval \<Rightarrow> bool) option" where
  "Feedback_static name =
     (if name = ''validateRating'' then Some Feedback_validateRating else None)"

definition call_static ::
  "string \<Rightarrow> (string \<Rightarrow> (jsval \<Rightarrow> bool) option) \<Rightarrow> string \<Rightarrow> jsval \<Rightarrow> exn + bool" where
  "call_static cls members name v =
     (case members name of
        None \<Rightarrow> Inl (TypeError (cls @ ''.'' @ name @ '' is not a function''))
      | Some f \<Rightarrow> Inr (f v))"

section \<open>The database client\<close>

text \<open>
  What a query of the database client resolves to: \<open>{data, count, error}\<close>. The database
  is outside the repository; the services below take the query they run as a parameter,
  a function of the database state.
\<close>

record pg_error =
  pg_code :: string
  pg_message :: string

record 'r sb_response =
  sb_data :: "'r option"
  sb_count :: "nat option"
  sb_error :: "pg_error option"

section \<open>FeedbackService.updateFeedback (services/FeedbackService.js)\<close>

text \<open>
  \<open>update_q db id patch\<close> is \<open>supabase.from('feedback').update(patch).eq('id',
  id).select().single()\<close>. Every exception of the body is caught and wrapped.
\<close>

definition updateFeedback_check :: "feedback \<Rightarrow> exn + unit" where
  "updateFeedback_check updateData =
     (if truthy (rating updateData) then
        (case call_static ''Feedback'' Feedback_static ''isValidRating'' (rating updateData) of
           Inl e \<Rightarrow> Inl e
         | Inr ok \<Rightarrow>
             if \<not> ok then Inl (Error ''Invalid rating. Must be between 1 and 5'')
             else Inr ())
      else Inr ())"

definition FeedbackService_updateFeedback ::
  "('db \<Rightarrow> jsval \<Rightarrow> feedback \<Rightarrow> feedback sb_response \<times> 'db) \<Rightarrow>
     jsval \<Rightarrow> feedback \<Rightarrow> 'db \<Rightarrow> (exn + feedback) \<times> 'db" where
  "FeedbackService_updateFeedback update_q feedbackId updateData db =
     (case updateFeedback_check updateData of
        Inl e \<Rightarrow> (Inl (Error (''Failed to update feedback: '' @ message e)), db)
      | Inr _ \<Rightarrow>
          (case update_q db feedbackId updateData of
             (resp, db') \<Rightarrow>
               (case sb_error resp of
                  Some err \<Rightarrow>
                    (Inl (Error (''Failed to update feedback: '' @ pg_message err)), db')
                | None \<Rightarrow>
                    (case sb_data resp of
                       None \<Rightarrow>
                         (Inl (Error ''Failed to update feedback: Feedback not found''), db')
                     | Some row \<Rightarrow> (Inr row, db')))))"

text \<open>
  An in-memory table standing for the database in the examples:
  \<open>update(patch).eq(...).select().single()\<close> changes the one row that matches and returns
  it; with no row or several, \<open>single()\<close> reports PGRST116 and nothing is changed.
\<close>

definition update_single :: "('r \<Rightarrow> bool) \<Rightarrow> ('r \<Rightarrow> 'r) \<Rightarrow> 'r list \<Rightarrow> 'r sb_response \<times> 'r list" where
  "update_single p f rows =
     (case filter p rows of
        [r] \<Rightarrow>
          (\<lparr>sb_data = Some (f r), sb_count = None, sb_error = None\<rparr>,
           map (\<lambda>x. if p x then f x else x) rows)
      | _ \<Rightarrow>
          (\<lparr>sb_data = None, sb_count = None,
            sb_error = Some \<lparr>pg_code = ''PGRST116'',
              pg_message = ''JSON object requested, multiple (or no) rows returned''\<rparr>\<rparr>,
           rows))"

text \<open>A feedback payload with every required field, and the rating given.\<close>

definition feedback_input :: "jsval \<Rightarrow> feedback" where
  "feedback_input r =
     \<lparr>fb_id = JUndefined, fb_student_id = JStr ''s1'', fb_event_id = JStr ''e1'', rating = r,
      comments = JStr ''great'', submitted_at = JUndefined, fb_created_at = JUndefined,
      fb_updated_at = JUndefined\<rparr>"

text \<open>The stored feedback \<open>f1\<close> and the update of its rating in the in-memory table.\<close>

definition stored_feedback :: feedback where
  "stored_feedback = (feedback_input (JNum 2))\<lparr>fb_id := JStr ''f1''\<rparr>"

definition feedback_update_q :: "feedback list \<Rightarrow> jsval \<Rightarrow> feedback \<Rightarrow> feedback sb_response \<times> feedback list" where
  "feedback_update_q db i patch =
     update_single (\<lambda>r. fb_id r = i) (\<lambda>r. r\<lparr>rating := rating patch\<rparr>) db"

section \<open>Event model (models/Event.js)\<close>

record event =
  ev_id :: jsval
  title :: jsval
  description :: jsval
  date :: jsval
  location :: jsval
  max_attendees :: jsval
  college_id :: jsval
  ev_created_at :: jsval
  ev_updated_at :: jsval

text \<open>
  \<open>validateDate\<close>: \<open>new Date(date) > new Date()\<close>. \<open>parse v\<close> is the time value of
  \<open>new Date(v)\<close> in milliseconds, \<open>None\<close> for an invalid date (whose comparison is
  false); \<open>now\<close> is the clock, read once.
\<close>

definition Event_validateDate :: "(jsval \<Rightarrow> int option) \<Rightarrow> int \<Rightarrow> jsval \<Rightarrow> bool" where
  "Event_validateDate parse now d = (case parse d of None \<Rightarrow> False | Some t \<Rightarrow> t > now)"

fun Event_validateMaxAttendees :: "jsval \<Rightarrow> bool" where
  "Event_validateMaxAttendees (JNum r) = (Number_isInteger (JNum r) \<and> r > 0)"
| "Event_validateMaxAttendees _ = False"

definition Event_create :: "(jsval \<Rightarrow> int option) \<Rightarrow> int \<Rightarrow> event \<Rightarrow> exn + event" where
  "Event_create parse now d =
     (case too_short ''title'' (title d) 3 of
        Inl e \<Rightarrow> Inl e
      | Inr True \<Rightarrow> Inl (Error ''Event title must be at least 3 characters long'')
      | Inr False \<Rightarrow>
     (case too_short ''description'' (description d) 10 of
        Inl e \<Rightarrow> Inl e
      | Inr True \<Rightarrow> Inl (Error ''Event description must be at least 10 characters long'')
      | Inr False \<Rightarrow>
     if \<not> truthy (date d) \<or> \<not> Event_validateDate parse now (date d)
       then Inl (Error ''Event date must be in the future'')
     else
     (case too_short ''location'' (location d) 3 of
        Inl e \<Rightarrow> Inl e
      | Inr True \<Rightarrow> Inl (Error ''Event location must be at least 3 characters long'')
      | Inr False \<Rightarrow>
     if \<not> truthy (max_attendees d) \<or> \<not> Event_validateMaxAttendees (max_attendees d)
       then Inl (Error ''Max attendees must be a positive integer'')
     else if \<not> truthy (college_id d) then Inl (Error ''College ID is required'')
     else Inr d)))"

text \<open>
  \<open>new Date(v)\<close>, as a parser \<open>Event.create\<close> can be given. A string goes through the
  date parser of the language, \<open>parse_string\<close>, which is not modelled; any other value
  is converted to a number, which is a time value when it is finite and at most
  8.64e15 in size, with its fraction cut off.
\<close>

fun Date_new :: "(string \<Rightarrow> int option) \<Rightarrow> jsval \<Rightarrow> int option" where
  "Date_new parse_string (JStr s) = parse_string s"
| "Date_new parse_string (JNum r) =
     (if \<bar>r\<bar> \<le> 8640000000000000 then Some (if 0 \<le> r then \<lfloor>r\<rfloor> else \<lceil>r\<rceil>) else None)"
| "Date_new parse_string JNull = Some 0"
| "Date_new parse_string (JBool b) = Some (if b then 1 else 0)"
| "Date_new parse_string JUndefined = None"
| "Date_new parse_string JNaN = None"
| "Date_new parse_string (JInf pos) = None"
| "Date_new parse_string JObj = parse_string ''[object Object]''"

text \<open>An event payload with every required field, and the date given.\<close>

definition event_input :: "jsval \<Rightarrow> event" where
  "event_input d =
     \<lparr>ev_id = JUndefined, title = JStr ''Hackathon'', description = JStr ''A full day of coding'',
      date = d, location = JStr ''Main hall'', max_attendees = JNum 50,
      college_id = JStr ''c1'', ev_created_at = JUndefined, ev_updated_at = JUndefined\<rparr>"

section \<open>Registration model (models/Registration.js) and its status update\<close>

record registration =
  reg_id :: jsval
  reg_student_id :: jsval
  reg_event_id :: jsval
  registration_date :: jsval
  reg_status :: jsval
  reg_created_at :: jsval
  reg_updated_at :: jsval

definition VALID_STATUSES :: "jsval list" where
  "VALID_STATUSES = [JStr ''confirmed'', JStr ''cancelled'', JStr ''waitlisted'']"

definition Registration_validateStatus :: "jsval \<Rightarrow> bool" where
  "Registration_validateStatus st = (st \<in> set VALID_STATUSES)"

text \<open>The constructor: \<open>status\<close> defaults to \<open>'confirmed'\<close>.\<close>

definition Registration_new :: "registration \<Rightarrow> registration" where
  "Registration_new d = d\<lparr>reg_status := js_or (reg_status d) (JStr ''confirmed'')\<rparr>"

definition Registration_create :: "string \<Rightarrow> registration \<Rightarrow> exn + registration" where
  "Registration_create now d =
     (if \<not> truthy (reg_student_id d) then Inl (Error ''Student ID is required'')
      else if \<not> truthy (reg_event_id d) then Inl (Error ''Event ID is required'')
      else if truthy (reg_status d) \<and> \<not> Registration_validateStatus (reg_status d)
        then Inl (Error ''Status must be one of: confirmed, cancelled, waitlisted'')
      else Inr (Registration_new
                  (d\<lparr>registration_date := js_or (registration_date d) (JStr now)\<rparr>)))"

text \<open>
  A value inside a template literal. The digits of a number are not modelled:
  \<open>num_str\<close> is \<open>Number.prototype.toString\<close>.
\<close>

fun template :: "(rat \<Rightarrow> string) \<Rightarrow> jsval \<Rightarrow> string" where
  "template num_str JUndefined = ''undefined''"
| "template num_str JNull = ''null''"
| "template num_str (JBool b) = (if b then ''true'' else ''false'')"
| "template num_str (JNum r) = num_str r"
| "template num_str JNaN = ''NaN''"
| "template num_str (JInf pos) = (if pos then ''Infinity'' else ''-Infinity'')"
| "template num_str (JStr s) = s"
| "template num_str JObj = ''[object Object]''"

text \<open>
  \<open>RegistrationService.updateRegistrationStatus\<close>; \<open>update_q db id status\<close> is
  \<open>supabase.from('registrations').update({status}).eq('id', id).select().single()\<close>.
\<close>

definition updateRegistrationStatus ::
  "(rat \<Rightarrow> string) \<Rightarrow> ('db \<Rightarrow> jsval \<Rightarrow> jsval \<Rightarrow> registration sb_response \<times> 'db) \<Rightarrow>
     jsval \<Rightarrow> jsval \<Rightarrow> 'db \<Rightarrow> (exn + registration) \<times> 'db" where
  "updateRegistrationStatus num_str update_q registrationId st db =
     (if st \<notin> set VALID_STATUSES then
        (Inl (Error (''Failed to update registration status: '' @ ''Invalid status: ''
                     @ template num_str st)), db)
      else
        (case update_q db registrationId st of
           (resp, db') \<Rightarrow>
             (case sb_error resp of
                Some err \<Rightarrow>
                  (Inl (Error (''Failed to update registration status: '' @ pg_message err)), db')
              | None \<Rightarrow>
                  (case sb_data resp of
                     None \<Rightarrow>
                       (Inl (Error (''Failed to update registration status: ''
                                    @ ''Registration not found'')), db')
                   | Some row \<Rightarrow> (Inr (Registration_new row), db')))))"

text \<open>A registration payload with the status given, and the in-memory table's update.\<close>

definition registration_input :: "jsval \<Rightarrow> registration" where
  "registration_input st =
     \<lparr>reg_id = JStr ''r1'', reg_student_id = JStr ''s1'', reg_event_id = JStr ''e1'',
      registration_date = JUndefined, reg_status = st, reg_created_at = JUndefined,
      reg_updated_at = JUndefined\<rparr>"

definition registration_update_q ::
  "registration list \<Rightarrow> jsval \<Rightarrow> jsval \<Rightarrow> registration sb_response \<times> registration list" where
  "registration_update_q db i st =
     update_single (\<lambda>r. reg_id r = i) (\<lambda>r. r\<lparr>reg_status := st\<rparr>) db"

section \<open>AuthService and AuthController (services/AuthService.js, controllers/AuthController.js)\<close>

text \<open>
  What the service needs from outside the repository: the two lookups of the \<open>admins\<close>
  table (\<open>select('*').eq(column, value).single()\<close>), the write of \<open>last_login\<close>,
  \<open>CryptoHelper.comparePassword\<close> (bcrypt, which may reject its arguments), the two
  token signers and the clock.
\<close>

record 'db auth_env =
  q_by_email :: "'db \<Rightarrow> jsval \<Rightarrow> admin sb_response"
  q_by_username :: "'db \<Rightarrow> jsval \<Rightarrow> admin sb_response"
  q_set_last_login :: "'db \<Rightarrow> jsval \<Rightarrow> string \<Rightarrow> 'db"
  comparePassword :: "jsval \<Rightarrow> jsval \<Rightarrow> exn + bool"
  generateToken :: "json \<Rightarrow> exn + string"
  generateRefreshToken :: "json \<Rightarrow> exn + string"
  now_iso :: string

text \<open>
  \<open>getAdminByEmail\<close> and \<open>getAdminByUsername\<close> on the response of their query: an error
  other than PGRST116 (no row) is thrown, wrapped; otherwise \<open>data ? new Admin(data) :
  null\<close>.
\<close>

definition getAdminBy :: "string \<Rightarrow> admin sb_response \<Rightarrow> exn + admin option" where
  "getAdminBy column resp =
     (case sb_error resp of
        Some err \<Rightarrow>
          if pg_code err \<noteq> ''PGRST116''
          then Inl (Error (''Failed to get admin by '' @ column @ '': '' @ pg_message err))
          else Inr (map_option Admin_new (sb_data resp))
      | None \<Rightarrow> Inr (map_option Admin_new (sb_data resp)))"

text \<open>The first lines of \<open>loginAdmin\<close>: by email, then by username.\<close>

definition find_admin :: "'db auth_env \<Rightarrow> 'db \<Rightarrow> jsval \<Rightarrow> exn + admin option" where
  "find_admin env db identifier =
     (case getAdminBy ''email'' (q_by_email env db identifier) of
        Inl e \<Rightarrow> Inl e
      | Inr (Some a) \<Rightarrow> Inr (Some a)
      | Inr None \<Rightarrow> getAdminBy ''username'' (q_by_username env db identifier))"

record login_result =
  lr_admin :: json
  accessToken :: string
  refreshToken :: string

text \<open>\<open>Admin.updateLastLogin\<close> on the instance.\<close>

definition Admin_updateLastLogin :: "string \<Rightarrow> admin \<Rightarrow> admin" where
  "Admin_updateLastLogin now a = a\<lparr>last_login := JStr now, updated_at := JStr now\<rparr>"

text \<open>The body of \<open>loginAdmin\<close>, inside its \<open>try\<close>.\<close>

definition loginAdmin_body ::
  "'db auth_env \<Rightarrow> jsval \<Rightarrow> jsval \<Rightarrow> 'db \<Rightarrow> (exn + login_result) \<times> 'db" where
  "loginAdmin_body env identifier password db =
     (case find_admin env db identifier of
        Inl e \<Rightarrow> (Inl e, db)
      | Inr None \<Rightarrow> (Inl (Error ''Invalid credentials''), db)
      | Inr (Some a) \<Rightarrow>
          if \<not> truthy (is_active a) then (Inl (Error ''Account is deactivated''), db)
          else
            (case comparePassword env password (password_hash a) of
               Inl e \<Rightarrow> (Inl e, db)
             | Inr False \<Rightarrow> (Inl (Error ''Invalid credentials''), db)
             | Inr True \<Rightarrow>
                 (let db' = q_set_last_login env db (admin_id a) (now_iso env);
                      a' = Admin_updateLastLogin (now_iso env) a;
                      tokenPayload = [(''id'', admin_id a'), (''username'', username a'),
                                      (''email'', email a'), (''role'', role a')]
                  in case generateToken env tokenPayload of
                       Inl e \<Rightarrow> (Inl e, db')
                     | Inr access \<Rightarrow>
                         (case generateRefreshToken env tokenPayload of
                            Inl e \<Rightarrow> (Inl e, db')
                          | Inr refresh \<Rightarrow>
                              (Inr \<lparr>lr_admin = Admin_toJSON a' JUndefined, accessToken = access,
                                    refreshToken = refresh\<rparr>, db')))))"

text \<open>\<open>loginAdmin\<close>: the \<open>catch\<close> rethrows \<open>Login failed: <message>\<close>.\<close>

definition AuthService_loginAdmin ::
  "'db auth_env \<Rightarrow> jsval \<Rightarrow> jsval \<Rightarrow> 'db \<Rightarrow> (exn + login_result) \<times> 'db" where
  "AuthService_loginAdmin env identifier password db =
     (case loginAdmin_body env identifier password db of
        (Inl e, db') \<Rightarrow> (Inl (Error (''Login failed: '' @ message e)), db')
      | (Inr r, db') \<Rightarrow> (Inr r, db'))"

text \<open>\<open>AuthController.login\<close>: the response sent, and the database after it.\<close>

definition AuthController_login ::
  "'db auth_env \<Rightarrow> jsval \<Rightarrow> jsval \<Rightarrow> 'db \<Rightarrow> (login_result, unit) response \<times> 'db" where
  "AuthController_login env identifier password db =
     (if \<not> truthy identifier \<or> \<not> truthy password
      then (ResponseHelper_validationError ''Email/username and password are required'', db)
      else
        (case AuthService_loginAdmin env identifier password db of
           (Inr result, db') \<Rightarrow> (ResponseHelper_success (Some result) ''Login successful'' 200, db')
         | (Inl e, db') \<Rightarrow> (ResponseHelper_unauthorized (message e), db')))"

text \<open>
  \<open>AuthService.deactivateAdmin\<close>; \<open>deactivate_q db id\<close> is
  \<open>supabase.from('admins').update({is_active: false}).eq('id', id)\<close> and returns the
  error of the response, if any.
\<close>

definition AuthService_deactivateAdmin ::
  "('db \<Rightarrow> string \<Rightarrow> pg_error option \<times> 'db) \<Rightarrow> string \<Rightarrow> 'db \<Rightarrow> (exn + bool) \<times> 'db" where
  "AuthService_deactivateAdmin deactivate_q adminId db =
     (case deactivate_q db adminId of
        (Some err, db') \<Rightarrow> (Inl (Error (''Failed to deactivate admin: '' @ pg_message err)), db')
      | (None, db') \<Rightarrow> (Inr True, db'))"

text \<open>
  \<open>req.user\<close>, the decoded token, and \<open>AuthController.deactivateAdmin\<close> with
  \<open>req.params.id\<close>, a string of the URL. Without a status, \<open>ResponseHelper.error\<close>
  sends 500.
\<close>

record auth_user =
  user_id :: jsval
  user_role :: jsval

definition AuthController_deactivateAdmin ::
  "('db \<Rightarrow> string \<Rightarrow> pg_error option \<times> 'db) \<Rightarrow> auth_user \<Rightarrow> string \<Rightarrow> 'db \<Rightarrow>
     (unit, unit) response \<times> 'db" where
  "AuthController_deactivateAdmin deactivate_q user ident db =
     (if user_role user \<noteq> JStr ''super_admin''
      then (ResponseHelper_forbidden ''Super admin access required'', db)
      else if JStr ident = user_id user
      then (ResponseHelper_error ''Cannot deactivate your own account'' 400 None, db)
      else
        (case AuthService_deactivateAdmin deactivate_q ident db of
           (Inl e, db') \<Rightarrow> (ResponseHelper_error (message e) 500 None, db')
         | (Inr _, db') \<Rightarrow> (ResponseHelper_success None ''Admin deactivated successfully'' 200, db')))"

text \<open>
  The in-memory \<open>admins\<close> table of the examples: \<open>single()\<close> of a selection, the two
  writes, and a stand-in for bcrypt in which the hash of \<open>p\<close> is \<open>hash:p\<close>.
\<close>

definition select_single :: "('r \<Rightarrow> bool) \<Rightarrow> 'r list \<Rightarrow> 'r sb_response" where
  "select_single p rows =
     (case filter p rows of
        [r] \<Rightarrow> \<lparr>sb_data = Some r, sb_count = None, sb_error = None\<rparr>
      | _ \<Rightarrow> \<lparr>sb_data = None, sb_count = None,
              sb_error = Some \<lparr>pg_code = ''PGRST116'',
                pg_message = ''JSON object requested, multiple (or no) rows returned''\<rparr>\<rparr>)"

definition memory_deactivate_q :: "admin list \<Rightarrow> string \<Rightarrow> pg_error option \<times> admin list" where
  "memory_deactivate_q db ident =
     (None, map (\<lambda>a. if admin_id a = JStr ident then a\<lparr>is_active := JBool False\<rparr> else a) db)"

fun toy_compare :: "jsval \<Rightarrow> jsval \<Rightarrow> exn + bool" where
  "toy_compare (JStr p) (JStr h) = Inr (h = ''hash:'' @ p)"
| "toy_compare _ _ = Inl (Error ''Failed to compare password: data and hash arguments required'')"

definition memory_env :: "admin list auth_env" where
  "memory_env =
     \<lparr>q_by_email = (\<lambda>db v. select_single (\<lambda>a. email a = v) db),
      q_by_username = (\<lambda>db v. select_single (\<lambda>a. username a = v) db),
      q_set_last_login =
        (\<lambda>db i now. map (\<lambda>a. if admin_id a = i then a\<lparr>last_login := JStr now\<rparr> else a) db),
      comparePassword = toy_compare,
      generateToken = (\<lambda>payload. Inr ''access''),
      generateRefreshToken = (\<lambda>payload. Inr ''refresh''),
      now_iso = ''2025-01-01T00:00:00.000Z''\<rparr>"

text \<open>Two admins: \<open>alice\<close> is active, \<open>bob\<close> is deactivated; their passwords are their names.\<close>

definition alice :: admin where
  "alice =
     \<lparr>admin_id = JStr ''a2'', username = JStr ''alice'', email = JStr ''alice@campus.edu'',
      password_hash = JStr ''hash:alice'', role = JStr ''super_admin'', is_active = JBool True,
      last_login = JNull, created_at = JStr ''2024-01-01'', updated_at = JStr ''2024-01-01''\<rparr>"

definition bob :: admin where
  "bob =
     \<lparr>admin_id = JStr ''a3'', username = JStr ''bob'', email = JStr ''bob@campus.edu'',
      password_hash = JStr ''hash:bob'', role = JStr ''admin'', is_active = JBool False,
      last_login = JNull, created_at = JStr ''2024-01-01'', updated_at = JStr ''2024-01-01''\<rparr>"

section \<open>Report arithmetic\<close>

text \<open>
  The numbers of JavaScript are IEEE doubles: the result of \<open>/\<close>, \<open>*\<close> or \<open>+\<close> is the
  exact result rounded to the nearest number with a 53-bit significand, to the even one
  at a tie. \<open>bits n\<close> is the length of \<open>n\<close> in binary and \<open>ilog2 x\<close> the exponent \<open>e\<close>
  with \<open>2 ^ e \<le> x < 2 ^ (e + 1)\<close>. The range of the exponent is not limited: the
  quotients of the reports are far from overflow and underflow.
\<close>

fun bits :: "nat \<Rightarrow> nat" where
  "bits n = (if n = 0 then 0 else Suc (bits (n div 2)))"

declare bits.simps [simp del]

definition ilog2 :: "rat \<Rightarrow> int" where
  "ilog2 x = (if 1 \<le> x then int (bits (nat \<lfloor>x\<rfloor>)) - 1
              else - int (bits (nat (\<lceil>1 / x\<rceil> - 1))))"

definition round_even :: "rat \<Rightarrow> int" where
  "round_even y =
     (let f = \<lfloor>y\<rfloor>; d = y - of_int f
      in if d < 1 / 2 then f else if 1 / 2 < d then f + 1 else if even f then f else f + 1)"

definition fl :: "rat \<Rightarrow> rat" where
  "fl x =
     (if x = 0 then 0
      else (let u = 2 powi (ilog2 \<bar>x\<bar> - 52) in of_int (round_even (x / u)) * u))"

text \<open>
  \<open>Number(x.toFixed(2))\<close> of a double \<open>x\<close>: \<open>toFixed\<close> takes the exact value of \<open>x\<close> to
  the nearest multiple of 1/100, the larger one at a tie, after the sign has been taken
  off. \<open>Number\<close> reads the two-digit decimal back as the double nearest to it, which is
  written out as that same decimal; the model keeps the decimal.
\<close>

definition toFixed2 :: "rat \<Rightarrow> rat" where
  "toFixed2 x =
     (if x < 0 then - (of_int \<lfloor>- x * 100 + 1 / 2\<rfloor> / 100)
      else of_int \<lfloor>x * 100 + 1 / 2\<rfloor> / 100)"

fun Number_toFixed2 :: "jsval \<Rightarrow> jsval" where
  "Number_toFixed2 (JNum r) = JNum (toFixed2 r)"
| "Number_toFixed2 v = v"

section \<open>Attendance percentage (controllers/reportController.js and routes/reports.js)\<close>

text \<open>
  A count query, \<open>select(columns, {count: 'exact', head: true})\<close> with its filters: the
  client sends a HEAD request, so the response has no rows (\<open>data\<close> is \<open>null\<close>) and the
  number of matching rows is in \<open>count\<close>.
\<close>

definition count_head :: "('r \<Rightarrow> bool) \<Rightarrow> 'r list \<Rightarrow> 'c sb_response" where
  "count_head p rows = \<lparr>sb_data = None, sb_count = Some (length (filter p rows)), sb_error = None\<rparr>"

record attendance =
  att_id :: jsval
  att_student_id :: jsval
  att_event_id :: jsval
  att_status :: jsval

text \<open>The two count queries both handlers send for an event.\<close>

definition registrations_of :: "string \<Rightarrow> registration list \<Rightarrow> 'c sb_response" where
  "registrations_of event_id regs = count_head (\<lambda>r. reg_event_id r = JStr event_id) regs"

definition present_of :: "string \<Rightarrow> attendance list \<Rightarrow> 'c sb_response" where
  "present_of event_id atts =
     count_head (\<lambda>a. att_event_id a = JStr event_id \<and> att_status a = JStr ''Present'') atts"

text \<open>The JSON body of the report; a handler answers 400 with the message of a query's error.\<close>

record attendance_report =
  ar_event_id :: string
  total_registrations :: jsval
  present :: jsval
  attendance_percentage :: jsval

text \<open>
  \<open>totalCount === 0 ? 0 : (presentCount / totalCount) * 100\<close> on the \<open>count\<close> fields,
  which are numbers or \<open>null\<close>: \<open>null\<close> is not \<open>=== 0\<close> and divides as 0. The quotient
  and the product are each rounded to a double.
\<close>

fun percentage_of :: "nat option \<Rightarrow> nat option \<Rightarrow> jsval" where
  "percentage_of (Some totalCount) presentCount =
     (if totalCount = 0 then JNum 0
      else JNum (fl (fl (of_nat (case presentCount of None \<Rightarrow> 0 | Some p \<Rightarrow> p)
                         / of_nat totalCount) * 100)))"
| "percentage_of None presentCount =
     (case presentCount of Some (Suc p) \<Rightarrow> JInf True | _ \<Rightarrow> JNaN)"

definition js_count :: "nat option \<Rightarrow> jsval" where
  "js_count c = (case c of None \<Rightarrow> JNull | Some n \<Rightarrow> JNum (of_nat n))"

text \<open>\<open>attendancePercentage\<close> of the controller: it reads \<open>count\<close> of each response.\<close>

definition attendancePercentage ::
  "string \<Rightarrow> 'c sb_response \<Rightarrow> 'c sb_response \<Rightarrow> (nat \<times> string) + attendance_report" where
  "attendancePercentage event_id regResp attResp =
     (case sb_error regResp of
        Some regErr \<Rightarrow> Inl (400, pg_message regErr)
      | None \<Rightarrow>
          (case sb_error attResp of
             Some attErr \<Rightarrow> Inl (400, pg_message attErr)
           | None \<Rightarrow>
               Inr \<lparr>ar_event_id = event_id,
                    total_registrations = js_count (sb_count regResp),
                    present = js_count (sb_count attResp),
                    attendance_percentage =
                      Number_toFixed2 (percentage_of (sb_count regResp) (sb_count attResp))\<rparr>))"

text \<open>
  The handler of \<open>router.get('/attendance/:event_id')\<close> reads \<open>data\<close> of each response
  instead: \<open>data?.length ? data.length : data?.count ?? data?.[0]?.count ?? err?.count ??
  0\<close>. The rows of \<open>select('registration_id')\<close> and \<open>select('attendance_id')\<close> have that
  one column, so a row is its value. Neither an array, nor its first row, nor \<open>null\<close>,
  nor the error (which is \<open>null\<close> once the handler got this far) has a \<open>count\<close>
  property: every link of the \<open>??\<close> chain is \<open>undefined\<close> and the chain ends in 0.
\<close>

definition route_count :: "jsval list option \<Rightarrow> nat" where
  "route_count rows =
     (case rows of
        None \<Rightarrow> 0
      | Some rs \<Rightarrow> if length rs \<noteq> 0 then length rs else 0)"

definition route_attendance ::
  "string \<Rightarrow> jsval list sb_response \<Rightarrow> jsval list sb_response \<Rightarrow>
     (nat \<times> string) + attendance_report" where
  "route_attendance event_id regResp attResp =
     (case sb_error regResp of
        Some regErr \<Rightarrow> Inl (400, pg_message regErr)
      | None \<Rightarrow>
          (case sb_error attResp of
             Some attErr \<Rightarrow> Inl (400, pg_message attErr)
           | None \<Rightarrow>
               (let totalCount = route_count (sb_data regResp);
                    presentCount = route_count (sb_data attResp)
                in Inr \<lparr>ar_event_id = event_id,
                        total_registrations = JNum (of_nat totalCount),
                        present = JNum (of_nat presentCount),
                        attendance_percentage =
                          Number_toFixed2 (percentage_of (Some totalCount) (Some presentCount))\<rparr>)))"

text \<open>An event with ten registrations, four of them marked present and one absent.\<close>

definition ten_registrations :: "registration list" where
  "ten_registrations =
     map (\<lambda>i. \<lparr>reg_id = JNum (of_nat i), reg_student_id = JNum (of_nat i),
                reg_event_id = JStr ''e1'', registration_date = JNull,
                reg_status = JStr ''confirmed'', reg_created_at = JNull,
                reg_updated_at = JNull\<rparr>) [0..<10]"

definition five_attendances :: "attendance list" where
  "five_attendances =
     map (\<lambda>i. \<lparr>att_id = JNum (of_nat i), att_student_id = JNum (of_nat i),
                att_event_id = JStr ''e1'',
                att_status = (if i < 4 then JStr ''Present'' else JStr ''Absent'')\<rparr>) [0..<5]"

section \<open>Feedback statistics (services/FeedbackService.js)\<close>

text \<open>
  A bucket of \<open>rating_distribution\<close> holds a count, or \<open>NaN\<close> once \<open>++\<close> has been applied
  to a key the object did not have.
\<close>

datatype bucket = Count nat | NaN

definition initial_distribution :: "int \<rightharpoonup> bucket" where
  "initial_distribution =
     [1 \<mapsto> Count 0, 2 \<mapsto> Count 0, 3 \<mapsto> Count 0, 4 \<mapsto> Count 0, 5 \<mapsto> Count 0]"

text \<open>\<open>stats.rating_distribution[feedback.rating]++\<close>.\<close>

definition bump :: "(int \<rightharpoonup> bucket) \<Rightarrow> int \<Rightarrow> (int \<rightharpoonup> bucket)" where
  "bump histogram r =
     histogram(r \<mapsto> (case histogram r of Some (Count n) \<Rightarrow> Count (n + 1) | _ \<Rightarrow> NaN))"

text \<open>\<open>rating_distribution[4] + rating_distribution[5]\<close>.\<close>

fun add_buckets :: "bucket option \<Rightarrow> bucket option \<Rightarrow> bucket" where
  "add_buckets (Some (Count a)) (Some (Count b)) = Count (a + b)"
| "add_buckets _ _ = NaN"

record feedback_stats =
  total_feedback :: nat
  average_rating :: rat
  rating_distribution :: "int \<rightharpoonup> bucket"
  satisfaction_rate :: jsval

text \<open>
  The statistics of the rows the query returned, given by their \<open>rating\<close> column (an
  integer column of the table). The sum of \<open>reduce\<close>, the mean and the percentage are
  doubles: every \<open>+\<close>, \<open>/\<close> and \<open>*\<close> rounds. The counts of the buckets are whole numbers
  below the length of an array, where \<open>++\<close> and \<open>+\<close> are exact.
\<close>

definition feedback_stats_of :: "int list \<Rightarrow> feedback_stats" where
  "feedback_stats_of ratings =
     (if length ratings > 0 then
        (let totalRating = foldl (\<lambda>sum r. fl (sum + of_int r)) 0 ratings;
             histogram = foldl bump initial_distribution ratings;
             satisfiedCount = add_buckets (histogram 4) (histogram 5)
         in \<lparr>total_feedback = length ratings,
              average_rating = toFixed2 (fl (totalRating / of_nat (length ratings))),
              rating_distribution = histogram,
              satisfaction_rate =
                (case satisfiedCount of
                   Count c \<Rightarrow>
                     JNum (toFixed2 (fl (fl (of_nat c / of_nat (length ratings)) * 100)))
                 | NaN \<Rightarrow> JNaN)\<rparr>)
      else
        \<lparr>total_feedback = length ratings, average_rating = 0,
         rating_distribution = initial_distribution, satisfaction_rate = JNum 0\<rparr>)"

definition getOverallFeedbackStats :: "int list sb_response \<Rightarrow> exn + feedback_stats" where
  "getOverallFeedbackStats resp =
     (case sb_error resp of
        Some err \<Rightarrow>
          Inl (Error (''Failed to fetch overall feedback stats: '' @ pg_message err))
      | None \<Rightarrow>
          (case sb_data resp of
             None \<Rightarrow>
               Inl (Error (''Failed to fetch overall feedback stats: ''
                           @ ''Cannot read properties of null (reading 'length')''))
           | Some ratings \<Rightarrow> Inr (feedback_stats_of ratings)))"

section \<open>Rate limiter (middleware/rateLimitMiddleware.js)\<close>

text \<open>
  \<open>RateLimitMiddleware.store\<close> is one \<open>Map\<close> for all limiters, from a key to a record
  object \<open>{count, resetTime}\<close>. The \<open>finish\<close> listener of a request keeps a reference to
  the record it counted on and may write to it later, so records live in a heap and the
  map holds their addresses.
\<close>

record rl_record =
  count :: int
  resetTime :: int

record rl_state =
  heap :: "nat \<rightharpoonup> rl_record"
  store :: "string \<rightharpoonup> nat"
  next_addr :: nat

definition empty_store :: rl_state where
  "empty_store = \<lparr>heap = Map.empty, store = Map.empty, next_addr = 0\<rparr>"

text \<open>\<open>store.get(key)\<close>: the record, or nothing.\<close>

definition store_get :: "rl_state \<Rightarrow> string \<Rightarrow> rl_record option" where
  "store_get st key = (case store st key of None \<Rightarrow> None | Some a \<Rightarrow> heap st a)"

text \<open>\<open>cleanExpiredEntries\<close>, with its own reading \<open>t\<close> of the clock.\<close>

definition cleanExpiredEntries :: "int \<Rightarrow> rl_state \<Rightarrow> rl_state" where
  "cleanExpiredEntries t st =
     st\<lparr>store := (\<lambda>key. case store_get st key of
                             None \<Rightarrow> store st key
                           | Some r \<Rightarrow> if resetTime r \<le> t then None else store st key)\<rparr>"

text \<open>
  The options of \<open>createLimiter\<close>; the key generator is applied by the caller, who passes
  the key.
\<close>

record limiter =
  windowMs :: int
  limit_max :: int
  limit_message :: string
  skipSuccessfulRequests :: bool
  skipFailedRequests :: bool
  standardHeaders :: bool
  legacyHeaders :: bool

text \<open>
  A request as the middleware sees it: \<open>Date.now()\<close>, the clock of the sweep if
  \<open>Math.random() < 0.01\<close> made one, and the status code its response will finish with.
\<close>

record request =
  req_now :: int
  req_sweep :: "int option"
  req_status :: nat

record limit_info =
  li_limit :: int
  li_remaining :: int
  li_resetTime :: int

text \<open>
  The middleware either calls \<open>next()\<close>, having registered a \<open>finish\<close> listener on the
  record at the address given, or answers 429.
\<close>

datatype outcome = Next nat | Limited "(unit, limit_info) response"

record rl_result =
  headers :: "(string \<times> int) list"
  outcome :: outcome

text \<open>The middleware \<open>createLimiter\<close> returns; reset times are left in milliseconds.\<close>

definition limiter_step :: "limiter \<Rightarrow> string \<Rightarrow> request \<Rightarrow> rl_state \<Rightarrow> rl_result \<times> rl_state" where
  "limiter_step L key q st =
     (let st1 = (case req_sweep q of None \<Rightarrow> st | Some t \<Rightarrow> cleanExpiredEntries t st);
          found = (case store st1 key of
                     None \<Rightarrow> None
                   | Some a \<Rightarrow> (case heap st1 a of None \<Rightarrow> None | Some r \<Rightarrow> Some (a, r)));
          (a, r, st2) =
            (case found of
               Some (a, r) \<Rightarrow>
                 if resetTime r \<le> req_now q
                 then (next_addr st1, \<lparr>count = 0, resetTime = req_now q + windowMs L\<rparr>,
                       st1\<lparr>next_addr := Suc (next_addr st1)\<rparr>)
                 else (a, r, st1)
             | None \<Rightarrow>
                 (next_addr st1, \<lparr>count = 0, resetTime = req_now q + windowMs L\<rparr>,
                  st1\<lparr>next_addr := Suc (next_addr st1)\<rparr>));
          r' = r\<lparr>count := count r + 1\<rparr>;
          st3 = st2\<lparr>heap := (heap st2)(a \<mapsto> r'), store := (store st2)(key \<mapsto> a)\<rparr>;
          remaining = max 0 (limit_max L - count r');
          hs = (if standardHeaders L
                then [(''RateLimit-Limit'', limit_max L), (''RateLimit-Remaining'', remaining),
                      (''RateLimit-Reset'', resetTime r')]
                else [])
               @ (if legacyHeaders L
                  then [(''X-RateLimit-Limit'', limit_max L), (''X-RateLimit-Remaining'', remaining),
                        (''X-RateLimit-Reset'', - ((- resetTime r') div 1000))]
                  else [])
      in if count r' > limit_max L
         then (\<lparr>headers = hs,
                outcome = Limited (ResponseHelper_error (limit_message L) 429
                  (Some \<lparr>li_limit = limit_max L, li_remaining = 0,
                         li_resetTime = resetTime r'\<rparr>))\<rparr>, st3)
         else (\<lparr>headers = hs, outcome = Next a\<rparr>, st3))"

text \<open>
  The \<open>finish\<close> listener of a request that went on, for the record at \<open>a\<close>:
  \<open>record.count--; store.set(key, record)\<close> when the response is one to skip.
\<close>

definition on_finish :: "limiter \<Rightarrow> string \<Rightarrow> nat \<Rightarrow> nat \<Rightarrow> rl_state \<Rightarrow> rl_state" where
  "on_finish L key a statusCode st =
     (if (skipSuccessfulRequests L \<and> statusCode < 400)
         \<or> (skipFailedRequests L \<and> statusCode \<ge> 400)
      then (case heap st a of
              None \<Rightarrow> st
            | Some r \<Rightarrow>
                st\<lparr>heap := (heap st)(a \<mapsto> r\<lparr>count := count r - 1\<rparr>),
                   store := (store st)(key \<mapsto> a)\<rparr>)
      else st)"

text \<open>
  One request served to its end, and a sequence of requests of one key through one
  limiter, each finished before the next arrives.
\<close>

definition serve :: "limiter \<Rightarrow> string \<Rightarrow> request \<Rightarrow> rl_state \<Rightarrow> rl_result \<times> rl_state" where
  "serve L key q st =
     (case limiter_step L key q st of
        (res, st') \<Rightarrow>
          (case outcome res of
             Next a \<Rightarrow> (res, on_finish L key a (req_status q) st')
           | Limited resp \<Rightarrow> (res, st')))"

fun run :: "limiter \<Rightarrow> string \<Rightarrow> rl_state \<Rightarrow> request list \<Rightarrow> rl_result list \<times> rl_state" where
  "run L key st [] = ([], st)"
| "run L key st (q # qs) =
     (case serve L key q st of
        (res, st') \<Rightarrow> (case run L key st' qs of (ress, st'') \<Rightarrow> (res # ress, st'')))"

definition passes :: "rl_result \<Rightarrow> bool" where
  "passes res = (case outcome res of Next a \<Rightarrow> True | Limited resp \<Rightarrow> False)"

definition limited :: "rl_result \<Rightarrow> bool" where
  "limited res = (case outcome res of Next a \<Rightarrow> False | Limited resp \<Rightarrow> status resp = 429)"

text \<open>
  The limiter counts a request for good unless its \<open>finish\<close> listener takes it back:
  a response below 400 under \<open>skipSuccessfulRequests\<close>, one of 400 or more under
  \<open>skipFailedRequests\<close>.
\<close>

definition counted :: "limiter \<Rightarrow> request \<Rightarrow> bool" where
  "counted L q =
     (\<not> ((skipSuccessfulRequests L \<and> req_status q < 400)
         \<or> (skipFailedRequests L \<and> req_status q \<ge> 400)))"

text \<open>
  The preconfigured limiters \<open>general\<close> and \<open>strict\<close>, whose key is \<open>req.ip\<close> for both,
  \<open>auth\<close> and \<open>registration\<close>.
\<close>

definition general_limiter :: limiter where
  "general_limiter =
     \<lparr>windowMs = 15 * 60 * 1000, limit_max = 100,
      limit_message = ''Too many API requests, please try again later'',
      skipSuccessfulRequests = False, skipFailedRequests = False,
      standardHeaders = True, legacyHeaders = False\<rparr>"

definition strict_limiter :: limiter where
  "strict_limiter =
     \<lparr>windowMs = 15 * 60 * 1000, limit_max = 10,
      limit_message = ''Too many requests for this operation, please try again later'',
      skipSuccessfulRequests = False, skipFailedRequests = False,
      standardHeaders = True, legacyHeaders = False\<rparr>"

definition auth_limiter :: limiter where
  "auth_limiter =
     \<lparr>windowMs = 15 * 60 * 1000, limit_max = 5,
      limit_message = ''Too many authentication attempts, please try again later'',
      skipSuccessfulRequests = True, skipFailedRequests = False,
      standardHeaders = True, legacyHeaders = False\<rparr>"

definition registration_limiter :: limiter where
  "registration_limiter =
     \<lparr>windowMs = 60 * 60 * 1000, limit_max = 3,
      limit_message = ''Too many registrations from this IP, please try again later'',
      skipSuccessfulRequests = False, skipFailedRequests = False,
      standardHeaders = True, legacyHeaders = False\<rparr>"

text \<open>A request at time \<open>t\<close> that makes no sweep and is answered with \<open>code\<close>.\<close>

definition request_at :: "int \<Rightarrow> nat \<Rightarrow> request" where
  "request_at t code = \<lparr>req_now = t, req_sweep = None, req_status = code\<rparr>"

text \<open>The response of the statistics query with the ratings given and no error.\<close>

definition feedback_response :: "int list \<Rightarrow> int list sb_response" where
  "feedback_response rs = \<lparr>sb_data = Some rs, sb_count = None, sb_error = None\<rparr>"

chapter \<open>Properties\<close>

section \<open>Serialisation of admins\<close>




section \<open>Ratings\<close>

lemma Number_isInteger_iff: "Number_isInteger v \<longleftrightarrow> (\<exists>n::int. v = JNum (of_int n))"
  by (cases v) (auto intro: exI [of _ "\<lfloor>_\<rfloor>"])

lemma Feedback_validateRating_iff:
  "Feedback_validateRating v \<longleftrightarrow> (\<exists>n::int. v = JNum (of_int n) \<and> 1 \<le> n \<and> n \<le> 5)"
  by (cases v) (auto simp: MIN_RATING_def MAX_RATING_def intro: exI [of _ "\<lfloor>_\<rfloor>"])

lemma isValidRating_iff:
  "ValidationService_isValidRating v \<longleftrightarrow> (\<exists>n::int. v = JNum (of_int n) \<and> 1 \<le> n \<and> n \<le> 5)"
  by (cases v) (auto intro: exI [of _ "\<lfloor>_\<rfloor>"])

text \<open>
  C3. With the other fields of the payload valid, \<open>Feedback.create\<close> accepts the rating
  exactly when it is an integral number between 1 and 5, and rejects every other value
  with the rating error; \<open>ValidationService.isValidRating\<close> decides the same set. The
  values 0, 6 and 3.5 are rejected by both.
\<close>

theorem rating_accepted_iff_integer_1_to_5:
  assumes "truthy (fb_student_id d)" and "truthy (fb_event_id d)"
    and "\<not> truthy (comments d) \<or> is_string (comments d)"
  shows "((\<exists>f. Feedback_create now d = Inr f)
            \<longleftrightarrow> (\<exists>n::int. rating d = JNum (of_int n) \<and> 1 \<le> n \<and> n \<le> 5))
    \<and> ((\<nexists>n::int. rating d = JNum (of_int n) \<and> 1 \<le> n \<and> n \<le> 5)
            \<longrightarrow> Feedback_create now d = Inl (Error ''Rating must be an integer between 1 and 5''))
    \<and> (ValidationService_isValidRating (rating d)
            \<longleftrightarrow> (\<exists>n::int. rating d = JNum (of_int n) \<and> 1 \<le> n \<and> n \<le> 5))
    \<and> \<not> Feedback_validateRating (JNum 0) \<and> \<not> Feedback_validateRating (JNum 6)
    \<and> \<not> Feedback_validateRating (JNum (7 / 2))
    \<and> \<not> ValidationService_isValidRating (JNum 0) \<and> \<not> ValidationService_isValidRating (JNum 6)
    \<and> \<not> ValidationService_isValidRating (JNum (7 / 2))"
proof -
  have a: "(\<exists>f. Feedback_create now d = Inr f) \<longleftrightarrow> Feedback_validateRating (rating d)"
    using assms by (cases "rating d") (auto simp: Feedback_create_def MIN_RATING_def MAX_RATING_def)
  have b: "\<not> Feedback_validateRating (rating d)
      \<Longrightarrow> Feedback_create now d = Inl (Error ''Rating must be an integer between 1 and 5'')"
    using assms by (simp add: Feedback_create_def)
  have c: "\<not> Feedback_validateRating (JNum 0) \<and> \<not> Feedback_validateRating (JNum 6)
    \<and> \<not> Feedback_validateRating (JNum (7 / 2))
    \<and> \<not> ValidationService_isValidRating (JNum 0) \<and> \<not> ValidationService_isValidRating (JNum 6)
    \<and> \<not> ValidationService_isValidRating (JNum (7 / 2))"
    by code_simp
  show ?thesis
    using a b c by (simp add: Feedback_validateRating_iff isValidRating_iff)
qed

theorem rating_accepted_iff_integer_1_to_5_witness:
  "truthy (fb_student_id (feedback_input (JNum 4)))
   \<and> truthy (fb_event_id (feedback_input (JNum 4)))
   \<and> is_string (comments (feedback_input (JNum 4)))
   \<and> Feedback_create ''2025-01-01T00:00:00.000Z'' (feedback_input (JNum 4))
       = Inr ((feedback_input (JNum 4))\<lparr>submitted_at := JStr ''2025-01-01T00:00:00.000Z''\<rparr>)
   \<and> (\<exists>n::int. rating (feedback_input (JNum 4)) = JNum (of_int n) \<and> 1 \<le> n \<and> n \<le> 5)
   \<and> Feedback_create ''2025-01-01T00:00:00.000Z'' (feedback_input (JNum 0))
       = Inl (Error ''Rating must be an integer between 1 and 5'')
   \<and> Feedback_create ''2025-01-01T00:00:00.000Z'' (feedback_input (JNum (7 / 2)))
       = Inl (Error ''Rating must be an integer between 1 and 5'')
   \<and> Feedback_create ''2025-01-01T00:00:00.000Z'' (feedback_input (JStr ''4''))
       = Inl (Error ''Rating must be an integer between 1 and 5'')"
proof -
  have pre: "truthy (fb_student_id (feedback_input (JNum 4)))"
    "truthy (fb_event_id (feedback_input (JNum 4)))"
    "\<not> truthy (comments (feedback_input (JNum 4))) \<or> is_string (comments (feedback_input (JNum 4)))"
    by (simp_all add: feedback_input_def)
  have run: "Feedback_create ''2025-01-01T00:00:00.000Z'' (feedback_input (JNum 4))
       = Inr ((feedback_input (JNum 4))\<lparr>submitted_at := JStr ''2025-01-01T00:00:00.000Z''\<rparr>)"
    "Feedback_create ''2025-01-01T00:00:00.000Z'' (feedback_input (JNum 0))
       = Inl (Error ''Rating must be an integer between 1 and 5'')"
    "Feedback_create ''2025-01-01T00:00:00.000Z'' (feedback_input (JNum (7 / 2)))
       = Inl (Error ''Rating must be an integer between 1 and 5'')"
    "Feedback_create ''2025-01-01T00:00:00.000Z'' (feedback_input (JStr ''4''))
       = Inl (Error ''Rating must be an integer between 1 and 5'')"
    by code_simp+
  from rating_accepted_iff_integer_1_to_5 [OF pre, of "''2025-01-01T00:00:00.000Z''"] run(1)
  have "\<exists>n::int. rating (feedback_input (JNum 4)) = JNum (of_int n) \<and> 1 \<le> n \<and> n \<le> 5"
    by blast
  with pre run show ?thesis by (simp add: feedback_input_def)
qed

section \<open>Updating feedback\<close>

text \<open>
  C10. For every feedback id and every update payload with a truthy rating (every valid
  rating 1..5 among them), \<open>updateFeedback\<close> throws the wrapped error of a call to the
  missing \<open>Feedback.isValidRating\<close>, whatever the database would do: the query is never
  run and the database state is returned as it was.
\<close>

theorem updateFeedback_always_throws_on_rating:
  assumes "truthy (rating updateData)"
  shows "FeedbackService_updateFeedback update_q feedbackId updateData db
         = (Inl (Error ''Failed to update feedback: Feedback.isValidRating is not a function''), db)"
  using assms
  by (simp add: FeedbackService_updateFeedback_def updateFeedback_check_def call_static_def
      Feedback_static_def)


theorem updateFeedback_always_throws_on_rating_witness:
  "truthy (rating (feedback_input (JNum 4)))
   \<and> Feedback_validateRating (rating (feedback_input (JNum 4)))
   \<and> FeedbackService_updateFeedback feedback_update_q (JStr ''f1'') (feedback_input (JNum 4))
        [stored_feedback]
      = (Inl (Error ''Failed to update feedback: Feedback.isValidRating is not a function''),
         [stored_feedback])
   \<and> fst (feedback_update_q [stored_feedback] (JStr ''f1'') (feedback_input (JNum 4)))
      = \<lparr>sb_data = Some (stored_feedback\<lparr>rating := JNum 4\<rparr>), sb_count = None, sb_error = None\<rparr>"
proof -
  have pre: "truthy (rating (feedback_input (JNum 4)))"
    by (simp add: feedback_input_def)
  have ok: "Feedback_validateRating (rating (feedback_input (JNum 4)))"
    by code_simp
  have q: "fst (feedback_update_q [stored_feedback] (JStr ''f1'') (feedback_input (JNum 4)))
      = \<lparr>sb_data = Some (stored_feedback\<lparr>rating := JNum 4\<rparr>), sb_count = None, sb_error = None\<rparr>"
    by (simp add: feedback_update_q_def update_single_def stored_feedback_def feedback_input_def)
  from updateFeedback_always_throws_on_rating [OF pre] pre ok q show ?thesis
    by simp
qed

section \<open>Event dates\<close>

text \<open>
  C7. \<open>Event.create\<close> returns an event only if the time value of the supplied date is
  strictly greater than the clock; for a date in the past or equal to the present it
  returns an error and no event, and when title and description pass it is the date
  error.
\<close>

theorem Event_create_requires_future_date:
  "(Event_create parse now d = Inr e \<longrightarrow> (\<exists>t. parse (date d) = Some t \<and> now < t))
   \<and> (parse (date d) = Some t \<and> t \<le> now \<longrightarrow> (\<exists>err. Event_create parse now d = Inl err))
   \<and> (parse (date d) = Some t \<and> t \<le> now
        \<and> too_short ''title'' (title d) 3 = Inr False
        \<and> too_short ''description'' (description d) 10 = Inr False
       \<longrightarrow> Event_create parse now d = Inl (Error ''Event date must be in the future''))"
  by (auto simp: Event_create_def Event_validateDate_def
      split: sum.splits bool.splits if_splits option.splits)

theorem Event_create_requires_future_date_witness:
  "Event_create (Date_new (\<lambda>s. None)) 1762128000000 (event_input (JNum 1767225600000))
     = Inr (event_input (JNum 1767225600000))
   \<and> Date_new (\<lambda>s. None) (date (event_input (JNum 1767225600000))) = Some 1767225600000
   \<and> (1762128000000 :: int) < 1767225600000
   \<and> Date_new (\<lambda>s. None) (date (event_input (JNum 1762128000000))) = Some 1762128000000
   \<and> Event_create (Date_new (\<lambda>s. None)) 1762128000000 (event_input (JNum 1762128000000))
     = Inl (Error ''Event date must be in the future'')
   \<and> Event_create (Date_new (\<lambda>s. None)) 1762128000000 (event_input (JNum 1000))
     = Inl (Error ''Event date must be in the future'')"
proof -
  have run: "Event_create (Date_new (\<lambda>s. None)) 1762128000000 (event_input (JNum 1767225600000))
     = Inr (event_input (JNum 1767225600000))"
    "Date_new (\<lambda>s. None) (date (event_input (JNum 1767225600000))) = Some 1767225600000"
    "Date_new (\<lambda>s. None) (date (event_input (JNum 1762128000000))) = Some 1762128000000"
    "Event_create (Date_new (\<lambda>s. None)) 1762128000000 (event_input (JNum 1000))
     = Inl (Error ''Event date must be in the future'')"
    "too_short ''title'' (title (event_input (JNum 1762128000000))) 3 = Inr False"
    "too_short ''description'' (description (event_input (JNum 1762128000000))) 10 = Inr False"
    by code_simp+
  from Event_create_requires_future_date
    [of "Date_new (\<lambda>s. None)" 1762128000000 "event_input (JNum 1762128000000)" "event_input (JNum 0)" 1762128000000]
    run(3,5,6)
  have "Event_create (Date_new (\<lambda>s. None)) 1762128000000 (event_input (JNum 1762128000000))
     = Inl (Error ''Event date must be in the future'')"
    by simp
  with run show ?thesis by simp
qed

section \<open>Registration statuses\<close>

text \<open>
  C5 fails at \<open>'pending'\<close>. The request validators accept this status and make it the
  default, and the reports count it, but the list of the model class has three statuses
  and \<open>'pending'\<close> is not one of them: \<open>Registration.create\<close> throws on it, and
  \<open>updateRegistrationStatus\<close> throws on it without running the update.
\<close>

theorem Registration_rejects_pending:
  "Registration_create ''2025-01-01T00:00:00.000Z'' (registration_input (JStr ''pending''))
     = Inl (Error ''Status must be one of: confirmed, cancelled, waitlisted'')
   \<and> updateRegistrationStatus (\<lambda>r. ''0'') registration_update_q (JStr ''r1'') (JStr ''pending'')
        [registration_input (JStr ''confirmed'')]
     = (Inl (Error ''Failed to update registration status: Invalid status: pending''),
        [registration_input (JStr ''confirmed'')])"
  by (simp add: Registration_create_def registration_input_def Registration_validateStatus_def
      VALID_STATUSES_def updateRegistrationStatus_def)

text \<open>
  What the two functions do on every status: with student and event given,
  \<open>Registration.create\<close> succeeds exactly when the status is falsy (it is then stored as
  \<open>'confirmed'\<close>) or one of \<open>confirmed\<close>, \<open>cancelled\<close>, \<open>waitlisted\<close>;
  \<open>updateRegistrationStatus\<close> runs the update for these three only.
\<close>

lemma Registration_status_three_values:
  assumes "truthy (reg_student_id d)" and "truthy (reg_event_id d)"
  shows "((\<exists>r. Registration_create now d = Inr r)
           \<longleftrightarrow> (\<not> truthy (reg_status d)
                \<or> reg_status d \<in> {JStr ''confirmed'', JStr ''cancelled'', JStr ''waitlisted''}))
    \<and> (Registration_create now d = Inr r
           \<longrightarrow> reg_status r \<in> {JStr ''confirmed'', JStr ''cancelled'', JStr ''waitlisted''})
    \<and> (\<not> (\<exists>r. Registration_create now d = Inr r)
           \<longrightarrow> Registration_create now d
               = Inl (Error ''Status must be one of: confirmed, cancelled, waitlisted''))
    \<and> (st \<notin> {JStr ''confirmed'', JStr ''cancelled'', JStr ''waitlisted''}
           \<longrightarrow> updateRegistrationStatus num_str update_q rid st db
               = (Inl (Error (''Failed to update registration status: Invalid status: ''
                              @ template num_str st)), db))
    \<and> (st \<in> {JStr ''confirmed'', JStr ''cancelled'', JStr ''waitlisted''}
         \<and> update_q db rid st = (resp, db') \<and> sb_error resp = None \<and> sb_data resp = Some row
           \<longrightarrow> updateRegistrationStatus num_str update_q rid st db
               = (Inr (Registration_new row), db'))"
  using assms
  by (auto simp: Registration_create_def Registration_validateStatus_def VALID_STATUSES_def
      Registration_new_def js_or_def updateRegistrationStatus_def)

lemma Registration_status_three_values_example:
  "truthy (reg_student_id (registration_input (JStr ''waitlisted'')))
   \<and> truthy (reg_event_id (registration_input (JStr ''waitlisted'')))
   \<and> Registration_create ''2025-01-01T00:00:00.000Z'' (registration_input (JStr ''waitlisted''))
      = Inr ((registration_input (JStr ''waitlisted''))
               \<lparr>registration_date := JStr ''2025-01-01T00:00:00.000Z''\<rparr>)
   \<and> updateRegistrationStatus (\<lambda>r. ''0'') registration_update_q (JStr ''r1'') (JStr ''cancelled'')
        [registration_input (JStr ''confirmed'')]
      = (Inr (registration_input (JStr ''cancelled'')), [registration_input (JStr ''cancelled'')])
   \<and> updateRegistrationStatus (\<lambda>r. ''0'') registration_update_q (JStr ''r1'') (JStr ''attended'')
        [registration_input (JStr ''confirmed'')]
      = (Inl (Error ''Failed to update registration status: Invalid status: attended''),
         [registration_input (JStr ''confirmed'')])"
proof -
  have pre: "truthy (reg_student_id (registration_input (JStr ''waitlisted'')))"
    "truthy (reg_event_id (registration_input (JStr ''waitlisted'')))"
    by (simp_all add: registration_input_def)
  have q: "registration_update_q [registration_input (JStr ''confirmed'')] (JStr ''r1'')
             (JStr ''cancelled'')
           = (\<lparr>sb_data = Some (registration_input (JStr ''cancelled'')), sb_count = None,
               sb_error = None\<rparr>, [registration_input (JStr ''cancelled'')])"
    by (simp add: registration_update_q_def update_single_def registration_input_def)
  have n: "Registration_new (registration_input (JStr ''cancelled''))
           = registration_input (JStr ''cancelled'')"
    by (simp add: Registration_new_def registration_input_def js_or_def)
  have c: "Registration_create ''2025-01-01T00:00:00.000Z'' (registration_input (JStr ''waitlisted''))
      = Inr ((registration_input (JStr ''waitlisted''))
               \<lparr>registration_date := JStr ''2025-01-01T00:00:00.000Z''\<rparr>)"
    by (simp add: Registration_create_def registration_input_def Registration_validateStatus_def
        VALID_STATUSES_def Registration_new_def js_or_def)
  from Registration_status_three_values [OF pre, where st = "JStr ''cancelled''"
      and update_q = registration_update_q and db = "[registration_input (JStr ''confirmed'')]"
      and rid = "JStr ''r1''" and row = "registration_input (JStr ''cancelled'')"
      and resp = "\<lparr>sb_data = Some (registration_input (JStr ''cancelled'')), sb_count = None,
               sb_error = None\<rparr>"
      and db' = "[registration_input (JStr ''cancelled'')]"
      and num_str = "\<lambda>r. ''0''"] q n
  have u1: "updateRegistrationStatus (\<lambda>r. ''0'') registration_update_q (JStr ''r1'') (JStr ''cancelled'')
        [registration_input (JStr ''confirmed'')]
      = (Inr (registration_input (JStr ''cancelled'')), [registration_input (JStr ''cancelled'')])"
    by simp
  from Registration_status_three_values [OF pre, where st = "JStr ''attended''"
      and update_q = registration_update_q and db = "[registration_input (JStr ''confirmed'')]"
      and rid = "JStr ''r1''" and num_str = "\<lambda>r. ''0''"]
  have u2: "updateRegistrationStatus (\<lambda>r. ''0'') registration_update_q (JStr ''r1'') (JStr ''attended'')
        [registration_input (JStr ''confirmed'')]
      = (Inl (Error ''Failed to update registration status: Invalid status: attended''),
         [registration_input (JStr ''confirmed'')])"
    by simp
  from pre c u1 u2 show ?thesis by simp
qed

section \<open>Deactivating admins\<close>

text \<open>
  C8. When the target id of a deactivation is the caller's own id, the request is
  rejected with a 4xx response whatever the caller's role is (400 for a super-admin, who
  alone gets past the role gate, and 403 for anyone else), the update is not run and the
  database, with the account's active flag, is as before.
\<close>

theorem self_deactivation_rejected:
  assumes "JStr ident = user_id user"
  shows "snd (AuthController_deactivateAdmin deactivate_q user ident db) = db
    \<and> 400 \<le> status (fst (AuthController_deactivateAdmin deactivate_q user ident db))
    \<and> status (fst (AuthController_deactivateAdmin deactivate_q user ident db)) < 500
    \<and> \<not> success (fst (AuthController_deactivateAdmin deactivate_q user ident db))
    \<and> fst (AuthController_deactivateAdmin deactivate_q user ident db)
        = (if user_role user = JStr ''super_admin''
           then ResponseHelper_error ''Cannot deactivate your own account'' 400 None
           else ResponseHelper_error ''Super admin access required'' 403 None)"
  using assms
  by (simp add: AuthController_deactivateAdmin_def ResponseHelper_error_def
      ResponseHelper_forbidden_def)

theorem self_deactivation_rejected_witness:
  "JStr ''a2'' = user_id \<lparr>user_id = JStr ''a2'', user_role = JStr ''super_admin''\<rparr>
   \<and> AuthController_deactivateAdmin memory_deactivate_q
        \<lparr>user_id = JStr ''a2'', user_role = JStr ''super_admin''\<rparr> ''a2'' [alice, bob]
      = (ResponseHelper_error ''Cannot deactivate your own account'' 400 None, [alice, bob])
   \<and> is_active alice = JBool True
   \<and> AuthController_deactivateAdmin memory_deactivate_q
        \<lparr>user_id = JStr ''a2'', user_role = JStr ''super_admin''\<rparr> ''a1'' [root_admin]
      = (ResponseHelper_success None ''Admin deactivated successfully'' 200,
         [root_admin\<lparr>is_active := JBool False\<rparr>])"
proof -
  have pre: "JStr ''a2'' = user_id \<lparr>user_id = JStr ''a2'', user_role = JStr ''super_admin''\<rparr>"
    by simp
  have other: "AuthController_deactivateAdmin memory_deactivate_q
        \<lparr>user_id = JStr ''a2'', user_role = JStr ''super_admin''\<rparr> ''a1'' [root_admin]
      = (ResponseHelper_success None ''Admin deactivated successfully'' 200,
         [root_admin\<lparr>is_active := JBool False\<rparr>])"
    by (simp add: AuthController_deactivateAdmin_def AuthService_deactivateAdmin_def
        memory_deactivate_q_def root_admin_def)
  have act: "is_active alice = JBool True"
    by (simp add: alice_def)
  from self_deactivation_rejected [OF pre, of memory_deactivate_q "[alice, bob]"]
  have "AuthController_deactivateAdmin memory_deactivate_q
        \<lparr>user_id = JStr ''a2'', user_role = JStr ''super_admin''\<rparr> ''a2'' [alice, bob]
      = (ResponseHelper_error ''Cannot deactivate your own account'' 400 None, [alice, bob])"
    by (simp add: prod_eq_iff)
  with pre other act show ?thesis by simp
qed

section \<open>Login failures\<close>

lemma find_admin_bob:
  "find_admin memory_env [alice, bob] (JStr ''bob'') = Inr (Some bob)"
  by (simp add: find_admin_def memory_env_def select_single_def getAdminBy_def alice_def bob_def
      Admin_new_def js_or_def)

lemma find_admin_ghost:
  "find_admin memory_env [alice, bob] (JStr ''ghost'') = Inr None"
  by (simp add: find_admin_def memory_env_def select_single_def getAdminBy_def alice_def bob_def)

lemma find_admin_alice:
  "find_admin memory_env [alice, bob] (JStr ''alice@campus.edu'') = Inr (Some alice)"
  by (simp add: find_admin_def memory_env_def select_single_def getAdminBy_def alice_def bob_def
      Admin_new_def js_or_def)

text \<open>
  A deactivated account is told so: with its correct password the response is a failure
  whose message differs from the one an unknown identifier gets.
\<close>

theorem login_deactivated_reveals_cause:
  "find_admin memory_env [alice, bob] (JStr ''bob'') = Inr (Some bob)
   \<and> \<not> truthy (is_active bob)
   \<and> comparePassword memory_env (JStr ''bob'') (password_hash bob) = Inr True
   \<and> AuthController_login memory_env (JStr ''bob'') (JStr ''bob'') [alice, bob]
      = (ResponseHelper_unauthorized ''Login failed: Account is deactivated'', [alice, bob])
   \<and> find_admin memory_env [alice, bob] (JStr ''ghost'') = Inr None
   \<and> AuthController_login memory_env (JStr ''ghost'') (JStr ''bob'') [alice, bob]
      = (ResponseHelper_unauthorized ''Login failed: Invalid credentials'', [alice, bob])
   \<and> msg (fst (AuthController_login memory_env (JStr ''bob'') (JStr ''bob'') [alice, bob]))
      \<noteq> msg (fst (AuthController_login memory_env (JStr ''ghost'') (JStr ''bob'') [alice, bob]))"
proof -
  have a: "\<not> truthy (is_active bob)"
    "comparePassword memory_env (JStr ''bob'') (password_hash bob) = Inr True"
    by (simp_all add: bob_def memory_env_def)
  have b: "AuthController_login memory_env (JStr ''bob'') (JStr ''bob'') [alice, bob]
      = (ResponseHelper_unauthorized ''Login failed: Account is deactivated'', [alice, bob])"
    using a by (simp add: AuthController_login_def AuthService_loginAdmin_def loginAdmin_body_def
        find_admin_bob)
  have c: "AuthController_login memory_env (JStr ''ghost'') (JStr ''bob'') [alice, bob]
      = (ResponseHelper_unauthorized ''Login failed: Invalid credentials'', [alice, bob])"
    by (simp add: AuthController_login_def AuthService_loginAdmin_def loginAdmin_body_def
        find_admin_ghost)
  have d: "msg (fst (AuthController_login memory_env (JStr ''bob'') (JStr ''bob'') [alice, bob]))
      \<noteq> msg (fst (AuthController_login memory_env (JStr ''ghost'') (JStr ''bob'') [alice, bob]))"
    unfolding b c by (simp add: ResponseHelper_unauthorized_def ResponseHelper_error_def)
  from a b c d find_admin_bob find_admin_ghost show ?thesis by simp
qed

text \<open>
  C4, as amended. A login whose lookup finds no account, whose account is inactive, or
  whose password does not match the hash is answered with a 401 failure that carries no
  data, and the database is not written. The message is \<open>Login failed: Invalid
  credentials\<close> for the first and the third cause and \<open>Login failed: Account is
  deactivated\<close> for an inactive account, whatever password was sent.
\<close>

theorem login_failures_are_401:
  assumes "truthy identifier" and "truthy password"
  shows "(find_admin env db identifier = Inr None
            \<longrightarrow> AuthController_login env identifier password db
                = (ResponseHelper_unauthorized ''Login failed: Invalid credentials'', db))
    \<and> (find_admin env db identifier = Inr (Some a) \<and> \<not> truthy (is_active a)
            \<longrightarrow> AuthController_login env identifier password db
                = (ResponseHelper_unauthorized ''Login failed: Account is deactivated'', db))
    \<and> (find_admin env db identifier = Inr (Some a) \<and> truthy (is_active a)
         \<and> comparePassword env password (password_hash a) = Inr False
            \<longrightarrow> AuthController_login env identifier password db
                = (ResponseHelper_unauthorized ''Login failed: Invalid credentials'', db))
    \<and> status (ResponseHelper_unauthorized m :: (login_result, unit) response) = 401
    \<and> \<not> success (ResponseHelper_unauthorized m :: (login_result, unit) response)
    \<and> data (ResponseHelper_unauthorized m :: (login_result, unit) response) = None"
  using assms
  by (simp add: AuthController_login_def AuthService_loginAdmin_def loginAdmin_body_def
      ResponseHelper_unauthorized_def ResponseHelper_error_def)

theorem login_failures_are_401_witness:
  "truthy (JStr ''alice@campus.edu'') \<and> truthy (JStr ''wrong'')
   \<and> find_admin memory_env [alice, bob] (JStr ''alice@campus.edu'') = Inr (Some alice)
   \<and> truthy (is_active alice)
   \<and> comparePassword memory_env (JStr ''wrong'') (password_hash alice) = Inr False
   \<and> AuthController_login memory_env (JStr ''alice@campus.edu'') (JStr ''wrong'') [alice, bob]
      = (ResponseHelper_unauthorized ''Login failed: Invalid credentials'', [alice, bob])
   \<and> status (fst (AuthController_login memory_env (JStr ''alice@campus.edu'') (JStr ''alice'')
        [alice, bob])) = 200
   \<and> snd (AuthController_login memory_env (JStr ''alice@campus.edu'') (JStr ''alice'')
        [alice, bob]) = [alice\<lparr>last_login := JStr ''2025-01-01T00:00:00.000Z''\<rparr>, bob]"
proof -
  have pre: "truthy (JStr ''alice@campus.edu'')" "truthy (JStr ''wrong'')"
    by simp_all
  have a: "truthy (is_active alice)"
    "comparePassword memory_env (JStr ''wrong'') (password_hash alice) = Inr False"
    "comparePassword memory_env (JStr ''alice'') (password_hash alice) = Inr True"
    by (simp_all add: alice_def memory_env_def)
  from login_failures_are_401 [OF pre, of memory_env "[alice, bob]" alice] find_admin_alice a
  have b: "AuthController_login memory_env (JStr ''alice@campus.edu'') (JStr ''wrong'') [alice, bob]
      = (ResponseHelper_unauthorized ''Login failed: Invalid credentials'', [alice, bob])"
    by simp
  have c: "AuthController_login memory_env (JStr ''alice@campus.edu'') (JStr ''alice'') [alice, bob]
      = (ResponseHelper_success
           (Some \<lparr>lr_admin = Admin_toJSON (Admin_updateLastLogin ''2025-01-01T00:00:00.000Z'' alice) JUndefined,
                  accessToken = ''access'', refreshToken = ''refresh''\<rparr>) ''Login successful'' 200,
         [alice\<lparr>last_login := JStr ''2025-01-01T00:00:00.000Z''\<rparr>, bob])"
    using a(1,3)
    by (simp add: AuthController_login_def AuthService_loginAdmin_def loginAdmin_body_def
        find_admin_alice) (simp add: memory_env_def alice_def bob_def)
  from pre a b find_admin_alice show ?thesis
    unfolding c by (simp add: ResponseHelper_success_def)
qed

section \<open>Rounding\<close>

text \<open>
  The exponent found by \<open>ilog2\<close> is not above its argument, so rounding to a double moves
  a number by at most the fraction \<open>2 ^ -53\<close> of its size; whole numbers below \<open>2 ^ 53\<close> are
  doubles already.
\<close>

lemma bits_upper: "n < 2 ^ bits n"
proof (induction n rule: bits.induct)
  case (1 n)
  show ?case
  proof (cases "n = 0")
    case True
    then show ?thesis by (simp add: bits.simps)
  next
    case False
    with 1 have "n div 2 < 2 ^ bits (n div 2)" by simp
    then have "n < 2 * 2 ^ bits (n div 2)" by linarith
    with False show ?thesis by (simp add: bits.simps [of n])
  qed
qed

lemma bits_lower: "0 < n \<Longrightarrow> 2 ^ (bits n - 1) \<le> n"
proof (induction n rule: bits.induct)
  case (1 n)
  show ?case
  proof (cases "n div 2 = 0")
    case True
    with 1 have "n = 1" by linarith
    then show ?thesis by (simp add: bits.simps)
  next
    case False
    with 1 have ih: "2 ^ (bits (n div 2) - 1) \<le> n div 2" by simp
    from False have "bits (n div 2) \<noteq> 0" by (simp add: bits.simps [of "n div 2"])
    then have "(2::nat) ^ bits (n div 2) = 2 * 2 ^ (bits (n div 2) - 1)"
      by (cases "bits (n div 2)") simp_all
    with ih have "(2::nat) ^ bits (n div 2) \<le> n" by linarith
    with 1 show ?thesis by (simp add: bits.simps [of n])
  qed
qed

lemma ilog2_le:
  assumes "0 < x"
  shows "2 powi ilog2 x \<le> x"
proof (cases "1 \<le> x")
  case True
  then have pos: "0 < nat \<lfloor>x\<rfloor>" by simp
  then have "bits (nat \<lfloor>x\<rfloor>) \<noteq> 0"
    by (simp add: bits.simps [of "nat \<lfloor>x\<rfloor>"])
  then obtain m where m: "bits (nat \<lfloor>x\<rfloor>) = Suc m"
    by (cases "bits (nat \<lfloor>x\<rfloor>)") simp_all
  have "ilog2 x = int m"
    using True by (simp add: ilog2_def m)
  then have "(2::rat) powi ilog2 x = 2 ^ m"
    by simp
  also have "\<dots> = of_nat (2 ^ m)" by simp
  also have "\<dots> \<le> of_nat (nat \<lfloor>x\<rfloor>)"
    using bits_lower [OF pos] by (simp only: of_nat_le_iff m diff_Suc_1)
  also have "\<dots> \<le> x" using True by simp
  finally show ?thesis .
next
  case False
  define k where "k = bits (nat (\<lceil>1 / x\<rceil> - 1))"
  have "nat (\<lceil>1 / x\<rceil> - 1) < 2 ^ k"
    unfolding k_def by (rule bits_upper)
  then have "int (nat (\<lceil>1 / x\<rceil> - 1)) < int (2 ^ k)"
    by (simp only: of_nat_less_iff)
  moreover have "z \<le> int (nat z)" for z :: int
    by arith
  ultimately have "\<lceil>1 / x\<rceil> - 1 < int (2 ^ k)"
    by (rule le_less_trans [rotated])
  then have "\<lceil>1 / x\<rceil> \<le> 2 ^ k" by simp
  then have "1 / x \<le> of_int (2 ^ k)" by (simp only: ceiling_le_iff)
  then have "1 / x \<le> 2 ^ k" by simp
  with assms have "1 \<le> 2 ^ k * x" by (simp add: field_simps)
  then have "1 / 2 ^ k \<le> x" by (simp add: field_simps)
  moreover have "(2::rat) powi ilog2 x = 1 / 2 ^ k"
    using False by (simp add: ilog2_def k_def power_int_def field_simps)
  ultimately show ?thesis by simp
qed

lemma round_even_near: "\<bar>of_int (round_even y) - y\<bar> \<le> 1 / 2"
proof -
  let ?f = "of_int \<lfloor>y\<rfloor> :: rat"
  have a: "?f \<le> y" "y < ?f + 1"
    by linarith+
  consider (lo) "y - ?f < 1 / 2" | (hi) "1 / 2 < y - ?f" | (tie) "y - ?f = 1 / 2"
    by linarith
  then show ?thesis
  proof cases
    case lo
    then have "round_even y = \<lfloor>y\<rfloor>" by (simp add: round_even_def Let_def)
    with a lo show ?thesis by simp
  next
    case hi
    then have "round_even y = \<lfloor>y\<rfloor> + 1" by (simp add: round_even_def Let_def)
    with a hi show ?thesis by simp
  next
    case tie
    then have "round_even y = \<lfloor>y\<rfloor> \<or> round_even y = \<lfloor>y\<rfloor> + 1"
      by (simp add: round_even_def Let_def)
    with a tie show ?thesis by auto
  qed
qed

lemma fl_error: "\<bar>fl x - x\<bar> \<le> \<bar>x\<bar> / 2 ^ 53"
proof (cases "x = 0")
  case True
  then show ?thesis by (simp add: fl_def)
next
  case False
  define u :: rat where "u = 2 powi (ilog2 \<bar>x\<bar> - 52)"
  have upos: "0 < u" by (simp add: u_def)
  have "u = 2 powi ilog2 \<bar>x\<bar> / 2 ^ 52"
    by (simp add: u_def power_int_diff)
  also have "\<dots> \<le> \<bar>x\<bar> / 2 ^ 52"
    using ilog2_le [of "\<bar>x\<bar>"] False by (simp add: divide_right_mono)
  finally have ule: "u \<le> \<bar>x\<bar> / 2 ^ 52" .
  have "fl x - x = (of_int (round_even (x / u)) - x / u) * u"
    using False upos by (simp add: fl_def u_def [symmetric] Let_def field_simps)
  then have "\<bar>fl x - x\<bar> = \<bar>of_int (round_even (x / u)) - x / u\<bar> * u"
    using upos by (simp add: abs_mult)
  also have "\<dots> \<le> 1 / 2 * u"
    using round_even_near [of "x / u"] upos by (simp add: mult_right_mono)
  also have "\<dots> \<le> 1 / 2 * (\<bar>x\<bar> / 2 ^ 52)"
    using ule by simp
  also have "\<dots> = \<bar>x\<bar> / 2 ^ 53" by simp
  finally show ?thesis .
qed

lemma round_even_of_int: "round_even (of_int k) = k"
  by (simp add: round_even_def)

lemma fl_of_nat:
  assumes "n < 2 ^ 53"
  shows "fl (of_nat n) = of_nat n"
proof (cases "n = 0")
  case True
  then show ?thesis by (simp add: fl_def)
next
  case False
  then have pos: "0 < n" by simp
  then have "bits n \<noteq> 0" by (simp add: bits.simps [of n])
  then obtain m where m: "bits n = Suc m"
    by (cases "bits n") simp_all
  from bits_lower [OF pos] m have "2 ^ m \<le> n" by simp
  with assms have lt: "(2::nat) ^ m < 2 ^ 53" by linarith
  have "m < 53" by (rule power_less_imp_less_exp [OF _ lt]) simp
  then have m52: "m \<le> 52" by simp
  have x1: "(1::rat) \<le> of_nat n" using pos by simp
  have "ilog2 \<bar>of_nat n\<bar> = int m"
    using x1 by (simp add: ilog2_def m)
  then have "ilog2 \<bar>of_nat n :: rat\<bar> - 52 = - int (52 - m)"
    using m52 by simp
  then have "(2::rat) powi (ilog2 \<bar>of_nat n\<bar> - 52) = 2 powi (- int (52 - m))"
    by (simp only:)
  also have "\<dots> = 1 / 2 ^ (52 - m)"
    by (simp only: power_int_minus power_int_of_nat inverse_eq_divide)
  finally have u: "(2::rat) powi (ilog2 \<bar>of_nat n\<bar> - 52) = 1 / 2 ^ (52 - m)" .
  have q: "(of_nat n :: rat) / (1 / 2 ^ (52 - m)) = of_int (int (n * 2 ^ (52 - m)))"
    by simp
  have "fl (of_nat n) = of_int (round_even (of_int (int (n * 2 ^ (52 - m))))) * (1 / 2 ^ (52 - m))"
    using False by (simp only: fl_def u Let_def q of_nat_eq_0_iff if_False)
  also have "\<dots> = of_nat n"
    by (simp only: round_even_of_int) simp
  finally show ?thesis .
qed

lemma fl_nonneg: "0 \<le> x \<Longrightarrow> 0 \<le> fl x"
proof -
  assume x: "0 \<le> x"
  have "\<bar>fl x - x\<bar> \<le> \<bar>x\<bar> / 2 ^ 53" by (rule fl_error)
  moreover have "x / 2 ^ 53 \<le> x" using x by (simp add: field_simps)
  ultimately show ?thesis using x by (simp add: abs_if split: if_splits)
qed

lemma toFixed2_hundredths: "\<exists>k::int. toFixed2 x = of_int k / 100"
  by (cases "x < 0") (auto simp: toFixed2_def intro: exI [of _ "- \<lfloor>_\<rfloor>"])

lemma hundredth_between:
  fixes v m :: rat
  assumes "v \<le> (2 * m + 1) / 200" and "(2 * m - 1) / 200 \<le> v"
  shows "\<bar>m / 100 - v\<bar> \<le> 1 / 200"
proof -
  have "m / 100 - v \<le> 1 / 200" using assms(2) by (simp add: field_simps)
  moreover have "- (m / 100 - v) \<le> 1 / 200" using assms(1) by (simp add: field_simps)
  ultimately show ?thesis by (simp only: abs_le_iff)
qed

lemma toFixed2_nearest:
  assumes x: "0 \<le> x" and b: "0 < b"
    and near: "\<bar>x - (of_int a / of_nat b :: rat)\<bar> < 1 / (200 * of_nat b)"
  shows "\<bar>toFixed2 x - (of_int a / of_nat b :: rat)\<bar> \<le> 1 / 200"
proof -
  define n where "n = \<lfloor>x * 100 + 1 / 2\<rfloor>"
  have f: "of_int n \<le> x * 100 + 1 / 2" "x * 100 + 1 / 2 < of_int n + 1"
    unfolding n_def by linarith+
  have bpos: "(0::rat) < of_nat b" using b by simp
  have up: "(of_int a / of_nat b :: rat) \<le> ((2 * of_int n + 1) / 200 :: rat)"
  proof (rule ccontr)
    assume "\<not> (of_int a / of_nat b :: rat) \<le> ((2 * of_int n + 1) / 200 :: rat)"
    then have "((2 * of_int n + 1) * of_nat b :: rat) < 200 * (of_int a :: rat)"
      using bpos by (simp add: field_simps)
    then have "(of_int ((2 * n + 1) * int b) :: rat) < of_int (200 * a)"
      by simp
    then have "(2 * n + 1) * int b < 200 * a"
      by (simp only: of_int_less_iff)
    then have "(2 * n + 1) * int b + 1 \<le> 200 * a"
      by simp
    then have "(of_int ((2 * n + 1) * int b + 1) :: rat) \<le> of_int (200 * a)"
      by (simp only: of_int_le_iff)
    then have "((2 * of_int n + 1) * of_nat b + 1 :: rat) \<le> 200 * (of_int a :: rat)"
      by simp
    then have "((2 * of_int n + 1) * of_nat b + 1 :: rat) / (200 * of_nat b)
                 \<le> 200 * of_int a / (200 * of_nat b)"
      using bpos by (intro divide_right_mono) simp_all
    moreover have "((2 * of_int n + 1) * of_nat b + 1 :: rat) / (200 * of_nat b)
                 = (2 * of_int n + 1) / 200 + 1 / (200 * of_nat b)"
      using bpos by (simp add: field_simps)
    moreover have "(200 * of_int a / (200 * of_nat b) :: rat) = of_int a / of_nat b"
      by simp
    ultimately have "((2 * of_int n + 1) / 200 :: rat) + 1 / (200 * of_nat b) \<le> (of_int a / of_nat b :: rat)"
      by simp
    moreover have "x < ((2 * of_int n + 1) / 200 :: rat)"
      using f(2) by simp
    ultimately have "1 / (200 * of_nat b) < (of_int a / of_nat b :: rat) - x"
      by linarith
    with near show False by linarith
  qed
  have lo: "((2 * of_int n - 1) / 200 :: rat) \<le> (of_int a / of_nat b :: rat)"
  proof (rule ccontr)
    assume "\<not> ((2 * of_int n - 1) / 200 :: rat) \<le> (of_int a / of_nat b :: rat)"
    then have "200 * (of_int a :: rat) < ((2 * of_int n - 1) * of_nat b :: rat)"
      using bpos by (simp add: field_simps)
    then have "(of_int (200 * a) :: rat) < of_int ((2 * n - 1) * int b)"
      by simp
    then have "200 * a < (2 * n - 1) * int b"
      by (simp only: of_int_less_iff)
    then have "200 * a + 1 \<le> (2 * n - 1) * int b"
      by simp
    then have "(of_int (200 * a + 1) :: rat) \<le> of_int ((2 * n - 1) * int b)"
      by (simp only: of_int_le_iff)
    then have "200 * (of_int a :: rat) + 1 \<le> ((2 * of_int n - 1) * of_nat b :: rat)"
      by simp
    then have "(200 * of_int a + 1 :: rat) / (200 * of_nat b)
                 \<le> (2 * of_int n - 1) * of_nat b / (200 * of_nat b)"
      using bpos by (intro divide_right_mono) simp_all
    moreover have "(200 * of_int a + 1 :: rat) / (200 * of_nat b)
                 = of_int a / of_nat b + 1 / (200 * of_nat b)"
      using bpos by (simp add: field_simps)
    moreover have "((2 * of_int n - 1) * of_nat b / (200 * of_nat b) :: rat) = (2 * of_int n - 1) / 200"
      using bpos by simp
    ultimately have "(of_int a / of_nat b :: rat) + 1 / (200 * of_nat b) \<le> ((2 * of_int n - 1) / 200 :: rat)"
      by simp
    moreover have "((2 * of_int n - 1) / 200 :: rat) \<le> x"
      using f(1) by simp
    ultimately have "1 / (200 * of_nat b) \<le> x - (of_int a / of_nat b :: rat)"
      by linarith
    with near show False by linarith
  qed
  have t: "toFixed2 x = of_int n / 100"
    using x by (simp add: toFixed2_def n_def)
  show ?thesis
    unfolding t using up lo by (rule hundredth_between)
qed

lemma small_error:
  assumes "0 < n" and "n < 2 ^ 32"
  shows "(300::rat) / 2 ^ 53 < 1 / (200 * of_nat n)"
proof -
  have "(of_nat n :: rat) < of_nat (2 ^ 32)"
    using assms(2) by (simp only: of_nat_less_iff)
  then have "(of_nat n :: rat) < 2 ^ 32" by simp
  then have "300 * (200 * (of_nat n :: rat)) < 2 ^ 53" by simp
  moreover have "(0::rat) < 200 * of_nat n" using assms(1) by simp
  ultimately show ?thesis
    by (simp add: field_simps)
qed

lemma mean_rounding:
  assumes n: "0 < n" "n < 2 ^ 32" and S: "0 \<le> S" "S \<le> 5 * int n"
  shows "\<bar>toFixed2 (fl (of_int S / of_nat n)) - of_int S / of_nat n\<bar> \<le> 1 / 200"
proof -
  define v :: rat where "v = of_int S / of_nat n"
  have npos: "(0::rat) < of_nat n" using n(1) by simp
  have v0: "0 \<le> v" using S(1) by (simp add: v_def)
  have "(of_int S :: rat) \<le> of_int (5 * int n)"
    using S(2) by (simp only: of_int_le_iff)
  then have v5: "v \<le> 5"
    using npos by (simp add: v_def field_simps)
  have "\<bar>fl v - v\<bar> \<le> \<bar>v\<bar> / 2 ^ 53" by (rule fl_error)
  also have "\<dots> \<le> 300 / 2 ^ 53" using v0 v5 by simp
  also have "\<dots> < 1 / (200 * of_nat n)" by (rule small_error [OF n])
  finally have "\<bar>fl v - of_int S / of_nat n\<bar> < 1 / (200 * of_nat n)"
    by (simp only: v_def)
  from toFixed2_nearest [OF fl_nonneg [OF v0] n(1) this] show ?thesis
    by (simp only: v_def)
qed

lemma percent_rounding:
  assumes n: "0 < n" "n < 2 ^ 32" and c: "c \<le> n"
  shows "\<bar>toFixed2 (fl (fl (of_nat c / of_nat n) * 100)) - of_nat c / of_nat n * 100\<bar> \<le> 1 / 200"
proof -
  define v :: rat where "v = of_nat c / of_nat n"
  define y where "y = fl v"
  define x where "x = fl (y * 100)"
  have npos: "(0::rat) < of_nat n" using n(1) by simp
  have v0: "0 \<le> v" by (simp add: v_def)
  have "(of_nat c :: rat) \<le> of_nat n" using c by (simp only: of_nat_le_iff)
  then have v1: "v \<le> 1" using npos by (simp add: v_def field_simps)
  have "\<bar>y - v\<bar> \<le> \<bar>v\<bar> / 2 ^ 53" unfolding y_def by (rule fl_error)
  also have "\<dots> \<le> 1 / 2 ^ 53" using v0 v1 by simp
  finally have e1: "\<bar>y - v\<bar> \<le> 1 / 2 ^ 53" .
  have y0: "0 \<le> y" unfolding y_def by (rule fl_nonneg [OF v0])
  have "y - v \<le> 1 / 2 ^ 53" by (rule abs_le_D1 [OF e1])
  moreover have "(1::rat) / 2 ^ 53 \<le> 1" by simp
  ultimately have y2: "y \<le> 2" using v1 by linarith
  have "\<bar>x - y * 100\<bar> \<le> \<bar>y * 100\<bar> / 2 ^ 53" unfolding x_def by (rule fl_error)
  also have "\<dots> \<le> 200 / 2 ^ 53" using y0 y2 by simp
  finally have e2: "\<bar>x - y * 100\<bar> \<le> 200 / 2 ^ 53" .
  have "x - v * 100 = (x - y * 100) + 100 * (y - v)"
    by simp
  then have "\<bar>x - v * 100\<bar> \<le> \<bar>x - y * 100\<bar> + \<bar>100 * (y - v)\<bar>"
    by (simp only: abs_triangle_ineq)
  also have "\<bar>100 * (y - v)\<bar> = 100 * \<bar>y - v\<bar>"
    by (simp only: abs_mult abs_numeral)
  also have "\<bar>x - y * 100\<bar> + 100 * \<bar>y - v\<bar> \<le> 200 / 2 ^ 53 + 100 * (1 / 2 ^ 53)"
    using e1 e2 by (intro add_mono mult_left_mono) simp_all
  also have "\<dots> = 300 / 2 ^ 53" by simp
  also have "\<dots> < 1 / (200 * of_nat n)" by (rule small_error [OF n])
  finally have "\<bar>x - v * 100\<bar> < 1 / (200 * of_nat n)" .
  moreover have vv: "v * 100 = of_int (100 * int c) / of_nat n"
    by (simp add: v_def)
  ultimately have near: "\<bar>x - of_int (100 * int c) / of_nat n\<bar> < 1 / (200 * of_nat n)"
    by (simp only:)
  have x0: "0 \<le> x" unfolding x_def using y0 by (intro fl_nonneg) simp
  have "\<bar>toFixed2 x - of_int (100 * int c) / of_nat n\<bar> \<le> 1 / 200"
    by (rule toFixed2_nearest [OF x0 n(1) near])
  then have "\<bar>toFixed2 x - v * 100\<bar> \<le> 1 / 200"
    by (simp only: vv)
  then show ?thesis
    by (simp only: x_def y_def v_def)
qed

section \<open>Feedback statistics\<close>

lemma ratings_sum_bounds:
  assumes "\<forall>r \<in> set rs. 1 \<le> r \<and> r \<le> (5::int)"
  shows "int (length rs) \<le> sum_list rs \<and> sum_list rs \<le> 5 * int (length rs)"
  using assms by (induction rs) auto

lemma foldl_fl_sum:
  assumes "\<forall>r \<in> set rs. 1 \<le> r \<and> r \<le> (5::int)" and "a + 5 * length rs < 2 ^ 53"
  shows "foldl (\<lambda>sum r. fl (sum + of_int r)) (of_nat a) rs = of_nat (a + nat (sum_list rs))"
  using assms
proof (induction rs arbitrary: a)
  case Nil
  then show ?case by simp
next
  case (Cons r rs)
  from Cons.prems have r: "1 \<le> r" "r \<le> 5" by simp_all
  then have "(of_nat a :: rat) + of_int r = of_nat (a + nat r)"
    by simp
  moreover have "a + nat r < 2 ^ 53"
    using Cons.prems(2) r by simp
  ultimately have step: "fl (of_nat a + of_int r) = of_nat (a + nat r)"
    by (simp only: fl_of_nat)
  have rest: "\<forall>q \<in> set rs. 1 \<le> q \<and> q \<le> 5"
    using Cons.prems(1) by simp
  have room: "(a + nat r) + 5 * length rs < 2 ^ 53"
    using Cons.prems(2) r by simp
  have nonneg: "0 \<le> sum_list rs"
    using ratings_sum_bounds [OF rest] by linarith
  have "foldl (\<lambda>sum r. fl (sum + of_int r)) (of_nat a) (r # rs)
          = foldl (\<lambda>sum r. fl (sum + of_int r)) (of_nat (a + nat r)) rs"
    by (simp only: foldl_Cons step)
  also have "\<dots> = of_nat ((a + nat r) + nat (sum_list rs))"
    by (rule Cons.IH [OF rest room])
  also have "(a + nat r) + nat (sum_list rs) = a + nat (sum_list (r # rs))"
    using r nonneg by (simp add: nat_add_distrib)
  finally show ?case .
qed

lemma foldl_bump_counts:
  assumes "\<forall>r \<in> set rs. \<exists>n. h r = Some (Count n)"
  shows "foldl bump h rs k =
           (case h k of Some (Count n) \<Rightarrow> Some (Count (n + count_list rs k)) | b \<Rightarrow> b)"
  using assms
proof (induction rs arbitrary: h)
  case Nil
  then show ?case by (simp split: option.splits bucket.splits)
next
  case (Cons r rs)
  from Cons.prems obtain n where n: "h r = Some (Count n)"
    by auto
  have step: "bump h r q = (if q = r then Some (Count (n + 1)) else h q)" for q
    using n by (simp add: bump_def)
  have pre: "\<forall>q \<in> set rs. \<exists>m. bump h r q = Some (Count m)"
    using Cons.prems n by (auto simp: bump_def)
  have "foldl bump h (r # rs) k = foldl bump (bump h r) rs k"
    by simp
  also have "\<dots> = (case bump h r k of
                      Some (Count m) \<Rightarrow> Some (Count (m + count_list rs k)) | b \<Rightarrow> b)"
    by (rule Cons.IH [OF pre])
  also have "\<dots> = (case h k of
                      Some (Count m) \<Rightarrow> Some (Count (m + count_list (r # rs) k)) | b \<Rightarrow> b)"
    using n by (cases "k = r") (simp_all add: step split: option.splits bucket.splits)
  finally show ?case .
qed

lemma initial_distribution_apply:
  "initial_distribution k = (if k \<in> {1, 2, 3, 4, 5} then Some (Count 0) else None)"
  by (simp add: initial_distribution_def)

lemma histogram_of_ratings:
  assumes "\<forall>r \<in> set rs. 1 \<le> r \<and> r \<le> 5"
  shows "foldl bump initial_distribution rs k =
           (if k \<in> {1, 2, 3, 4, 5} then Some (Count (count_list rs k)) else None)"
proof -
  have "\<forall>r \<in> set rs. \<exists>n. initial_distribution r = Some (Count n)"
  proof
    fix r assume "r \<in> set rs"
    with assms have "1 \<le> r \<and> r \<le> 5" by blast
    then have "r \<in> {1, 2, 3, 4, 5}" by auto
    then show "\<exists>n. initial_distribution r = Some (Count n)"
      by (simp only: initial_distribution_apply if_True) blast
  qed
  then have "foldl bump initial_distribution rs k =
          (case initial_distribution k of
             Some (Count n) \<Rightarrow> Some (Count (n + count_list rs k)) | b \<Rightarrow> b)"
    by (rule foldl_bump_counts)
  also have "\<dots> = (if k \<in> {1, 2, 3, 4, 5} then Some (Count (count_list rs k)) else None)"
    by (simp add: initial_distribution_apply)
  finally show ?thesis .
qed

lemma satisfied_count:
  assumes "\<forall>r \<in> set rs. 1 \<le> r \<and> r \<le> (5::int)"
  shows "count_list rs 4 + count_list rs 5 = length (filter (\<lambda>r. 4 \<le> r) rs)"
  using assms by (induction rs) auto


text \<open>
  C2. \<open>getOverallFeedbackStats\<close>, on the rows its query returned, for every list of
  feedback ratings (integers from 1 to 5, as the model and the table constrain them; a
  JavaScript array has fewer than 2^32 elements): \<open>average_rating\<close> is the arithmetic
  mean rounded to two decimals, that is a whole number of hundredths at most half a
  hundredth away from the mean, and 0 when there is no rating; \<open>rating_distribution\<close>
  has exactly the buckets 1 to 5, each holding the number of ratings of that value;
  \<open>satisfaction_rate\<close> is the percentage of ratings of 4 or more rounded to two
  decimals, and 0 when there is no rating. At a tie the code rounds the double it
  computed, which can lie on either side: 39 ratings of 1 and one of 2 have the mean
  1.025 and the average 1.02.
\<close>

theorem feedback_stats_correct:
  assumes "sb_error resp = None" and "sb_data resp = Some rs"
    and "\<forall>r \<in> set rs. 1 \<le> r \<and> r \<le> 5"
    and "length rs < 2 ^ 32"
  shows "\<exists>st. getOverallFeedbackStats resp = Inr st
    \<and> total_feedback st = length rs
    \<and> (rs = [] \<longrightarrow> average_rating st = 0 \<and> satisfaction_rate st = JNum 0)
    \<and> (rs \<noteq> [] \<longrightarrow>
          (\<exists>k::int. average_rating st = of_int k / 100)
          \<and> \<bar>average_rating st - of_int (sum_list rs) / of_nat (length rs)\<bar> \<le> 1 / 200)
    \<and> dom (rating_distribution st) = {1, 2, 3, 4, 5}
    \<and> (\<forall>k \<in> {1, 2, 3, 4, 5}. rating_distribution st k = Some (Count (count_list rs k)))
    \<and> (rs \<noteq> [] \<longrightarrow>
          (\<exists>s. satisfaction_rate st = JNum s
             \<and> (\<exists>k::int. s = of_int k / 100)
             \<and> \<bar>s - of_nat (length (filter (\<lambda>r. 4 \<le> r) rs)) / of_nat (length rs) * 100\<bar>
                 \<le> 1 / 200))"
proof -
  let ?st = "feedback_stats_of rs"
  note h = histogram_of_ratings [OF assms(3)]
  have run: "getOverallFeedbackStats resp = Inr ?st"
    using assms(1,2) by (simp add: getOverallFeedbackStats_def)
  have total: "total_feedback ?st = length rs"
    by (simp add: feedback_stats_of_def Let_def)
  have empty: "rs = [] \<longrightarrow> average_rating ?st = 0 \<and> satisfaction_rate ?st = JNum 0"
    by (simp add: feedback_stats_of_def)
  have sums: "0 \<le> sum_list rs" "sum_list rs \<le> 5 * int (length rs)"
    using ratings_sum_bounds [OF assms(3)] by simp_all
  have "0 + 5 * length rs < 2 ^ 53"
    using assms(4) by simp
  from foldl_fl_sum [OF assms(3) this] sums(1)
  have fold: "foldl (\<lambda>sum r. fl (sum + of_int r)) 0 rs = of_int (sum_list rs)"
    by simp
  have avg: "rs \<noteq> [] \<longrightarrow>
          (\<exists>k::int. average_rating ?st = of_int k / 100)
          \<and> \<bar>average_rating ?st - of_int (sum_list rs) / of_nat (length rs)\<bar> \<le> 1 / 200"
  proof
    assume "rs \<noteq> []"
    then have len: "0 < length rs" by simp
    have a: "average_rating ?st = toFixed2 (fl (of_int (sum_list rs) / of_nat (length rs)))"
      using len by (simp add: feedback_stats_of_def Let_def fold)
    show "(\<exists>k::int. average_rating ?st = of_int k / 100)
          \<and> \<bar>average_rating ?st - of_int (sum_list rs) / of_nat (length rs)\<bar> \<le> 1 / 200"
      unfolding a using toFixed2_hundredths mean_rounding [OF len assms(4) sums]
      by blast
  qed
  have d: "rating_distribution ?st k =
             (if k \<in> {1, 2, 3, 4, 5} then Some (Count (count_list rs k)) else None)" for k
  proof (cases "rs = []")
    case True
    then show ?thesis
      by (simp add: feedback_stats_of_def initial_distribution_apply)
  next
    case False
    then show ?thesis
      using h [of k] by (simp add: feedback_stats_of_def Let_def)
  qed
  have dm: "dom (rating_distribution ?st) = {1, 2, 3, 4, 5}"
    by (auto simp: dom_def d split: if_splits)
  have buckets: "\<forall>k \<in> {1, 2, 3, 4, 5}.
          rating_distribution ?st k = Some (Count (count_list rs k))"
    by (simp add: d)
  have sat: "rs \<noteq> [] \<longrightarrow>
          (\<exists>s. satisfaction_rate ?st = JNum s
             \<and> (\<exists>k::int. s = of_int k / 100)
             \<and> \<bar>s - of_nat (length (filter (\<lambda>r. 4 \<le> r) rs)) / of_nat (length rs) * 100\<bar>
                 \<le> 1 / 200)"
  proof
    assume "rs \<noteq> []"
    then have len: "0 < length rs" by simp
    let ?c = "length (filter (\<lambda>r. 4 \<le> r) rs)"
    have c: "?c \<le> length rs" by simp
    have "satisfaction_rate ?st
            = JNum (toFixed2 (fl (fl (of_nat (count_list rs 4 + count_list rs 5)
                                        / of_nat (length rs)) * 100)))"
      using len h [of 4] h [of 5] by (simp add: feedback_stats_of_def Let_def)
    then have s: "satisfaction_rate ?st
            = JNum (toFixed2 (fl (fl (of_nat ?c / of_nat (length rs)) * 100)))"
      by (simp only: satisfied_count [OF assms(3)])
    show "\<exists>s. satisfaction_rate ?st = JNum s
             \<and> (\<exists>k::int. s = of_int k / 100)
             \<and> \<bar>s - of_nat ?c / of_nat (length rs) * 100\<bar> \<le> 1 / 200"
      unfolding s using toFixed2_hundredths percent_rounding [OF len assms(4) c]
      by blast
  qed
  from run total empty avg dm buckets sat show ?thesis
    by (intro exI [of _ ?st] conjI)
qed

theorem feedback_stats_correct_witness:
  "sb_error (feedback_response [5, 4, 3]) = None
   \<and> sb_data (feedback_response [5, 4, 3]) = Some [5, 4, 3]
   \<and> list_all (\<lambda>r. 1 \<le> r \<and> r \<le> 5) [5, 4, 3 :: int]
   \<and> length [5, 4, 3 :: int] < 2 ^ 32
   \<and> getOverallFeedbackStats (feedback_response [5, 4, 3]) = Inr (feedback_stats_of [5, 4, 3])
   \<and> average_rating (feedback_stats_of [5, 4, 3]) = 4
   \<and> map (rating_distribution (feedback_stats_of [5, 4, 3])) [1, 2, 3, 4, 5]
      = [Some (Count 0), Some (Count 0), Some (Count 1), Some (Count 1), Some (Count 1)]
   \<and> dom (rating_distribution (feedback_stats_of [5, 4, 3])) = {1, 2, 3, 4, 5}
   \<and> satisfaction_rate (feedback_stats_of [5, 4, 3]) = JNum (6667 / 100)
   \<and> getOverallFeedbackStats (feedback_response [])
      = Inr \<lparr>total_feedback = 0, average_rating = 0, rating_distribution = initial_distribution,
         satisfaction_rate = JNum 0\<rparr>
   \<and> average_rating (feedback_stats_of (2 # replicate 39 1)) = 51 / 50"
proof -
  have pre: "sb_error (feedback_response [5, 4, 3]) = None"
    "sb_data (feedback_response [5, 4, 3]) = Some [5, 4, 3]"
    "\<forall>r \<in> set [5, 4, 3 :: int]. 1 \<le> r \<and> r \<le> 5"
    "length [5, 4, 3 :: int] < 2 ^ 32"
    by (simp_all add: feedback_response_def)
  have g: "getOverallFeedbackStats (feedback_response rs) = Inr (feedback_stats_of rs)" for rs
    by (simp add: getOverallFeedbackStats_def feedback_response_def)
  have run: "average_rating (feedback_stats_of [5, 4, 3]) = 4"
    "map (rating_distribution (feedback_stats_of [5, 4, 3])) [1, 2, 3, 4, 5]
      = [Some (Count 0), Some (Count 0), Some (Count 1), Some (Count 1), Some (Count 1)]"
    "satisfaction_rate (feedback_stats_of [5, 4, 3]) = JNum (6667 / 100)"
    "average_rating (feedback_stats_of (2 # replicate 39 1)) = 51 / 50"
    by code_simp+
  have e: "feedback_stats_of []
      = \<lparr>total_feedback = 0, average_rating = 0, rating_distribution = initial_distribution,
         satisfaction_rate = JNum 0\<rparr>"
    by (simp add: feedback_stats_of_def)
  from feedback_stats_correct [OF pre] g [of "[5, 4, 3]"]
  have "dom (rating_distribution (feedback_stats_of [5, 4, 3])) = {1, 2, 3, 4, 5}"
    by auto
  with pre(1,2) run e g show ?thesis by simp
qed

section \<open>Attendance percentage\<close>

lemma count_head_count:
  "sb_count (count_head p rows) = Some (length (filter p rows))"
  "sb_data (count_head p rows) = None"
  "sb_error (count_head p rows) = None"
  by (simp_all add: count_head_def)

lemma toFixed2_zero: "toFixed2 0 = 0"
  by code_simp

text \<open>
  The controller computes the rate the report promises: present over registered, times
  100, each operation rounded to a double and the result to two decimals, and 0 for an
  event nobody registered for.
\<close>

lemma attendancePercentage_rate:
  "attendancePercentage e (registrations_of e regs) (present_of e atts)
     = Inr \<lparr>ar_event_id = e,
            total_registrations =
              JNum (of_nat (length (filter (\<lambda>r. reg_event_id r = JStr e) regs))),
            present =
              JNum (of_nat (length (filter (\<lambda>a. att_event_id a = JStr e
                                              \<and> att_status a = JStr ''Present'') atts))),
            attendance_percentage =
              (if length (filter (\<lambda>r. reg_event_id r = JStr e) regs) = 0 then JNum 0
               else JNum (toFixed2 (fl (fl
                 (of_nat (length (filter (\<lambda>a. att_event_id a = JStr e
                                              \<and> att_status a = JStr ''Present'') atts))
                  / of_nat (length (filter (\<lambda>r. reg_event_id r = JStr e) regs))) * 100))))\<rparr>"
  by (simp add: attendancePercentage_def registrations_of_def present_of_def count_head_count
      js_count_def toFixed2_zero)

lemma ten_and_four:
  "length (filter (\<lambda>r. reg_event_id r = JStr ''e1'') ten_registrations) = 10"
  "length (filter (\<lambda>a. att_event_id a = JStr ''e1'' \<and> att_status a = JStr ''Present'')
             five_attendances) = 4"
  by code_simp+

text \<open>
  C1 fails in the route handler. It looks for the counts in \<open>data\<close>, which a count
  query leaves \<open>null\<close>, so for every event it reports no registration, nobody present
  and 0 percent: with ten registrations and four present records it answers 0 where the
  controller answers 40.
\<close>

theorem route_attendance_always_zero:
  "route_attendance e (registrations_of e regs) (present_of e atts)
     = Inr \<lparr>ar_event_id = e, total_registrations = JNum 0, present = JNum 0,
            attendance_percentage = JNum 0\<rparr>
   \<and> route_attendance ''e1'' (registrations_of ''e1'' ten_registrations)
        (present_of ''e1'' five_attendances)
     = Inr \<lparr>ar_event_id = ''e1'', total_registrations = JNum 0, present = JNum 0,
            attendance_percentage = JNum 0\<rparr>
   \<and> attendancePercentage ''e1''
        (registrations_of ''e1'' ten_registrations :: unit sb_response)
        (present_of ''e1'' five_attendances)
     = Inr \<lparr>ar_event_id = ''e1'', total_registrations = JNum 10, present = JNum 4,
            attendance_percentage = JNum 40\<rparr>"
proof -
  have r: "route_attendance e (registrations_of e regs) (present_of e atts)
     = Inr \<lparr>ar_event_id = e, total_registrations = JNum 0, present = JNum 0,
            attendance_percentage = JNum 0\<rparr>" for e regs atts
    by (simp add: route_attendance_def registrations_of_def present_of_def count_head_count
        route_count_def toFixed2_zero)
  have "toFixed2 (fl (fl (4 / 10) * 100)) = 40"
    by code_simp
  then have c: "attendancePercentage ''e1''
        (registrations_of ''e1'' ten_registrations :: unit sb_response)
        (present_of ''e1'' five_attendances)
     = Inr \<lparr>ar_event_id = ''e1'', total_registrations = JNum 10, present = JNum 4,
            attendance_percentage = JNum 40\<rparr>"
    by (simp add: attendancePercentage_rate ten_and_four)
  from r c show ?thesis by simp
qed

section \<open>Rate limiting\<close>

text \<open>
  A request of a key that has no record, or an expired one, opens a window and counts as
  its first; a request inside the window of the key's record adds one to its count. A
  sweep changes neither, as long as its clock is inside the window too.
\<close>

lemma step_fresh:
  assumes "store_get st key = None \<or> (\<exists>r. store_get st key = Some r \<and> resetTime r \<le> req_now q)"
  shows "store_get (snd (limiter_step L key q st)) key
           = Some \<lparr>count = 1, resetTime = req_now q + windowMs L\<rparr>"
    and "passes (fst (limiter_step L key q st)) \<longleftrightarrow> 1 \<le> limit_max L"
    and "limited (fst (limiter_step L key q st)) \<longleftrightarrow> \<not> 1 \<le> limit_max L"
  using assms
  by (auto simp: limiter_step_def store_get_def cleanExpiredEntries_def Let_def
      ResponseHelper_error_def passes_def limited_def split: option.splits)

lemma step_live:
  assumes "store_get st key = Some r" and "req_now q < resetTime r"
    and "\<forall>t. req_sweep q = Some t \<longrightarrow> t < resetTime r"
  shows "store_get (snd (limiter_step L key q st)) key = Some (r\<lparr>count := count r + 1\<rparr>)"
    and "passes (fst (limiter_step L key q st)) \<longleftrightarrow> count r + 1 \<le> limit_max L"
    and "limited (fst (limiter_step L key q st)) \<longleftrightarrow> \<not> count r + 1 \<le> limit_max L"
  using assms
  by (auto simp: limiter_step_def store_get_def cleanExpiredEntries_def Let_def
      ResponseHelper_error_def passes_def limited_def split: option.splits)

text \<open>
  The \<open>finish\<close> listener changes nothing for a request the limiter counts, and a request
  answered 429 has no listener.
\<close>

lemma serve_counted:
  assumes "counted L q \<or> \<not> passes (fst (limiter_step L key q st))"
  shows "serve L key q st = limiter_step L key q st"
  using assms
  by (auto simp: serve_def on_finish_def counted_def passes_def
      split: prod.splits outcome.splits)

lemma fst_serve: "fst (serve L key q st) = fst (limiter_step L key q st)"
  by (simp add: serve_def split: prod.splits outcome.splits)

lemma run_within:
  assumes "store_get st key = Some r"
    and "\<forall>q \<in> set qs. req_now q < resetTime r \<and> (\<forall>t. req_sweep q = Some t \<longrightarrow> t < resetTime r)"
    and "\<forall>i < length qs. counted L (qs ! i) \<or> \<not> count r + int i + 1 \<le> limit_max L"
  shows "store_get (snd (run L key st qs)) key = Some (r\<lparr>count := count r + int (length qs)\<rparr>)
    \<and> length (fst (run L key st qs)) = length qs
    \<and> (\<forall>i < length qs.
          (passes (fst (run L key st qs) ! i) \<longleftrightarrow> count r + int i + 1 \<le> limit_max L)
          \<and> (limited (fst (run L key st qs) ! i) \<longleftrightarrow> \<not> count r + int i + 1 \<le> limit_max L))"
  using assms
proof (induction qs arbitrary: st r)
  case Nil
  then show ?case by simp
next
  case (Cons q qs)
  obtain res st' where step: "limiter_step L key q st = (res, st')"
    by (cases "limiter_step L key q st")
  obtain ress st'' where rest: "run L key st' qs = (ress, st'')"
    by (cases "run L key st' qs")
  have q: "req_now q < resetTime r" "\<forall>t. req_sweep q = Some t \<longrightarrow> t < resetTime r"
    using Cons.prems(2) by simp_all
  from step_live [OF Cons.prems(1) q, of L] step
  have live: "store_get st' key = Some (r\<lparr>count := count r + 1\<rparr>)"
    and p: "passes res \<longleftrightarrow> count r + 1 \<le> limit_max L"
    and l: "limited res \<longleftrightarrow> \<not> count r + 1 \<le> limit_max L"
    by simp_all
  from Cons.prems(3) have "counted L q \<or> \<not> count r + 1 \<le> limit_max L"
    by auto
  with p step have "counted L q \<or> \<not> passes (fst (limiter_step L key q st))"
    by simp
  then have srv: "serve L key q st = (res, st')"
    using step by (simp add: serve_counted)
  have inside: "\<forall>q \<in> set qs. req_now q < resetTime (r\<lparr>count := count r + 1\<rparr>)
          \<and> (\<forall>t. req_sweep q = Some t \<longrightarrow> t < resetTime (r\<lparr>count := count r + 1\<rparr>))"
    using Cons.prems(2) by simp
  have later: "\<forall>i < length qs. counted L (qs ! i)
          \<or> \<not> count (r\<lparr>count := count r + 1\<rparr>) + int i + 1 \<le> limit_max L"
  proof (intro allI impI)
    fix i assume "i < length qs"
    then have "Suc i < length (q # qs)" by simp
    with Cons.prems(3) have "counted L ((q # qs) ! Suc i)
        \<or> \<not> count r + int (Suc i) + 1 \<le> limit_max L"
      by blast
    then show "counted L (qs ! i)
        \<or> \<not> count (r\<lparr>count := count r + 1\<rparr>) + int i + 1 \<le> limit_max L"
      by (simp add: algebra_simps)
  qed
  from Cons.IH [OF live inside later] rest
  have ih: "store_get st'' key = Some (r\<lparr>count := count r + 1 + int (length qs)\<rparr>)"
    "length ress = length qs"
    "\<forall>i < length qs.
          (passes (ress ! i) \<longleftrightarrow> count r + 1 + int i + 1 \<le> limit_max L)
          \<and> (limited (ress ! i) \<longleftrightarrow> \<not> count r + 1 + int i + 1 \<le> limit_max L)"
    by simp_all
  have run: "run L key st (q # qs) = (res # ress, st'')"
    using srv rest by simp
  have idx: "(passes ((res # ress) ! i) \<longleftrightarrow> count r + int i + 1 \<le> limit_max L)
          \<and> (limited ((res # ress) ! i) \<longleftrightarrow> \<not> count r + int i + 1 \<le> limit_max L)"
    if "i < length (q # qs)" for i
  proof (cases i)
    case 0
    with p l show ?thesis by simp
  next
    case (Suc j)
    with that have "j < length qs" by simp
    with ih(3) Suc show ?thesis by (simp add: algebra_simps)
  qed
  show ?case
    unfolding run using ih(1,2) idx by (simp add: algebra_simps)
qed

text \<open>
  Four ways in which the claim fails as it is stated. The \<open>auth\<close> limiter has a maximum
  of 5 and takes successful requests back: six logins answered 200 inside one window all
  pass. A request whose own clock is inside the window, but whose sweep reads the clock
  at the window's end, finds its record swept and passes as the fourth of a maximum of
  three. With a maximum of 0 the request after the window is answered 429 like the one
  before. And \<open>general\<close> and \<open>strict\<close> count on the same key of the one store: after ten
  requests through \<open>general\<close> the first request through \<open>strict\<close> is answered 429.
\<close>

theorem limiter_claim_fails:
  "(limit_max auth_limiter = 5
    \<and> map passes (fst (run auth_limiter ''auth_10.0.0.1'' empty_store
         [request_at 1000 200, request_at 1001 200, request_at 1002 200,
          request_at 1003 200, request_at 1004 200, request_at 1005 200]))
       = [True, True, True, True, True, True])
   \<and> (limit_max registration_limiter = 3
      \<and> (3600999 :: int) < 1000 + windowMs registration_limiter
      \<and> map passes (fst (run registration_limiter ''reg_10.0.0.1'' empty_store
           [request_at 1000 201, request_at 1001 201, request_at 1002 201,
            \<lparr>req_now = 3600999, req_sweep = Some 3601000, req_status = 201\<rparr>]))
         = [True, True, True, True])
   \<and> ((1000 :: int) + windowMs registration_limiter \<le> 3601000
      \<and> map passes (fst (run (registration_limiter\<lparr>limit_max := 0\<rparr>) ''reg_10.0.0.1'' empty_store
           [request_at 1000 201, request_at 3601000 201]))
         = [False, False])
   \<and> (limit_max strict_limiter = 10
      \<and> limited (fst (serve strict_limiter ''10.0.0.1'' (request_at 1010 200)
           (snd (run general_limiter ''10.0.0.1'' empty_store
             (map (\<lambda>i. request_at (1000 + int i) 200) [0..<10]))))))"
  by code_simp

text \<open>
  C6, as amended. Take a limiter with maximum \<open>N\<close> and a key with no unexpired record
  when its first request \<open>q1\<close> arrives, and let \<open>N\<close> more requests of the key follow
  inside the window that \<open>q1\<close> opened: every reading of the clock made for them, the
  sweep's included, is before the window's end. If the limiter counts the first \<open>N\<close> of
  these \<open>N + 1\<close> requests (it takes none of them back when it finishes) and nothing else
  writes the key in the shared store, then the first \<open>N\<close> pass and the last is answered
  429; and when \<open>N\<close> is at least 1, a request that arrives once the window has elapsed
  passes again.
\<close>

theorem limiter_window:
  assumes "limit_max L = int N"
    and "store_get st key = None \<or> (\<exists>r. store_get st key = Some r \<and> resetTime r \<le> req_now q1)"
    and "length qs = N"
    and "\<forall>i < N. counted L ((q1 # qs) ! i)"
    and "\<forall>q \<in> set qs. req_now q < req_now q1 + windowMs L
           \<and> (\<forall>t. req_sweep q = Some t \<longrightarrow> t < req_now q1 + windowMs L)"
    and "req_now q1 + windowMs L \<le> req_now q'"
  shows "length (fst (run L key st (q1 # qs))) = N + 1
    \<and> (\<forall>i < N. passes (fst (run L key st (q1 # qs)) ! i))
    \<and> limited (fst (run L key st (q1 # qs)) ! N)
    \<and> (1 \<le> N \<longrightarrow> passes (fst (serve L key q' (snd (run L key st (q1 # qs))))))"
proof -
  let ?r = "\<lparr>count = 1, resetTime = req_now q1 + windowMs L\<rparr>"
  obtain res st' where step: "limiter_step L key q1 st = (res, st')"
    by (cases "limiter_step L key q1 st")
  obtain ress st'' where rest: "run L key st' qs = (ress, st'')"
    by (cases "run L key st' qs")
  from step_fresh [OF assms(2), of L] step assms(1)
  have live: "store_get st' key = Some ?r"
    and p: "passes res \<longleftrightarrow> 1 \<le> N"
    and l: "limited res \<longleftrightarrow> \<not> 1 \<le> N"
    by simp_all
  have "counted L q1 \<or> \<not> 1 \<le> N"
    using assms(4) by (cases N) auto
  with p step have "counted L q1 \<or> \<not> passes (fst (limiter_step L key q1 st))"
    by simp
  then have srv: "serve L key q1 st = (res, st')"
    using step by (simp add: serve_counted)
  have inside: "\<forall>q \<in> set qs. req_now q < resetTime ?r
      \<and> (\<forall>t. req_sweep q = Some t \<longrightarrow> t < resetTime ?r)"
    using assms(5) by simp
  have later: "\<forall>i < length qs. counted L (qs ! i) \<or> \<not> count ?r + int i + 1 \<le> limit_max L"
  proof (intro allI impI)
    fix i assume i: "i < length qs"
    show "counted L (qs ! i) \<or> \<not> count ?r + int i + 1 \<le> limit_max L"
    proof (cases "Suc i < N")
      case True
      with assms(4) have "counted L ((q1 # qs) ! Suc i)" by blast
      then show ?thesis by simp
    next
      case False
      then show ?thesis using assms(1) by simp
    qed
  qed
  from run_within [OF live inside later] rest assms(1,3)
  have w: "store_get st'' key = Some \<lparr>count = 1 + int N, resetTime = req_now q1 + windowMs L\<rparr>"
    "length ress = N"
    "\<forall>i < N. (passes (ress ! i) \<longleftrightarrow> int i + 2 \<le> int N)
             \<and> (limited (ress ! i) \<longleftrightarrow> \<not> int i + 2 \<le> int N)"
    by (simp_all add: algebra_simps)
  have run: "run L key st (q1 # qs) = (res # ress, st'')"
    using srv rest by simp
  have first: "passes ((res # ress) ! i)" if "i < N" for i
  proof (cases i)
    case 0
    with p that show ?thesis by simp
  next
    case (Suc j)
    with that w(3) show ?thesis by simp
  qed
  have last: "limited ((res # ress) ! N)"
  proof (cases N)
    case 0
    with l show ?thesis by simp
  next
    case (Suc j)
    with w(3) show ?thesis by simp
  qed
  have "store_get st'' key = None
          \<or> (\<exists>r. store_get st'' key = Some r \<and> resetTime r \<le> req_now q')"
    using w(1) assms(6) by simp
  from step_fresh(2) [OF this, of L] assms(1)
  have again: "1 \<le> N \<longrightarrow> passes (fst (serve L key q' st''))"
    by (simp add: fst_serve)
  show ?thesis
    unfolding run using w(2) first last again by simp
qed

theorem limiter_window_witness:
  "limit_max auth_limiter = int 5
   \<and> store_get empty_store ''auth_10.0.0.1'' = None
   \<and> list_all (counted auth_limiter)
        [request_at 1000 401, request_at 1001 401, request_at 1002 401, request_at 1003 401,
         request_at 1004 401]
   \<and> list_all (\<lambda>q. req_now q < req_now (request_at 1000 401) + windowMs auth_limiter)
        [request_at 1001 401, request_at 1002 401, request_at 1003 401, request_at 1004 401,
         request_at 1005 401]
   \<and> map passes (fst (run auth_limiter ''auth_10.0.0.1'' empty_store
        [request_at 1000 401, request_at 1001 401, request_at 1002 401, request_at 1003 401,
         request_at 1004 401, request_at 1005 401]))
      = [True, True, True, True, True, False]
   \<and> limited (fst (run auth_limiter ''auth_10.0.0.1'' empty_store
        [request_at 1000 401, request_at 1001 401, request_at 1002 401, request_at 1003 401,
         request_at 1004 401, request_at 1005 401]) ! 5)
   \<and> passes (fst (serve auth_limiter ''auth_10.0.0.1'' (request_at 901000 200)
        (snd (run auth_limiter ''auth_10.0.0.1'' empty_store
          [request_at 1000 401, request_at 1001 401, request_at 1002 401, request_at 1003 401,
           request_at 1004 401, request_at 1005 401]))))"
proof -
  let ?qs = "[request_at 1001 401, request_at 1002 401, request_at 1003 401,
              request_at 1004 401, request_at 1005 401]"
  have m: "limit_max auth_limiter = int 5"
    by (simp add: auth_limiter_def)
  have fresh: "store_get empty_store ''auth_10.0.0.1'' = None
      \<or> (\<exists>r. store_get empty_store ''auth_10.0.0.1'' = Some r
              \<and> resetTime r \<le> req_now (request_at 1000 401))"
    by (simp add: store_get_def empty_store_def)
  have len: "length ?qs = 5"
    by simp
  have cnt: "\<forall>i < 5. counted auth_limiter ((request_at 1000 401 # ?qs) ! i)"
    by (simp add: counted_def auth_limiter_def request_at_def nth_Cons split: nat.splits)
  have within: "\<forall>q \<in> set ?qs.
      req_now q < req_now (request_at 1000 401) + windowMs auth_limiter
      \<and> (\<forall>t. req_sweep q = Some t
            \<longrightarrow> t < req_now (request_at 1000 401) + windowMs auth_limiter)"
    by (simp add: request_at_def auth_limiter_def)
  have after: "req_now (request_at 1000 401) + windowMs auth_limiter
      \<le> req_now (request_at 901000 200)"
    by (simp add: request_at_def auth_limiter_def)
  have ev: "map passes (fst (run auth_limiter ''auth_10.0.0.1'' empty_store
        (request_at 1000 401 # ?qs)))
      = [True, True, True, True, True, False]"
    "list_all (counted auth_limiter)
        [request_at 1000 401, request_at 1001 401, request_at 1002 401, request_at 1003 401,
         request_at 1004 401]"
    "list_all (\<lambda>q. req_now q < req_now (request_at 1000 401) + windowMs auth_limiter) ?qs"
    by code_simp+
  from limiter_window [OF m fresh len cnt within after]
  have "limited (fst (run auth_limiter ''auth_10.0.0.1'' empty_store
          (request_at 1000 401 # ?qs)) ! 5)
   \<and> passes (fst (serve auth_limiter ''auth_10.0.0.1'' (request_at 901000 200)
        (snd (run auth_limiter ''auth_10.0.0.1'' empty_store (request_at 1000 401 # ?qs)))))"
    by simp
  with m ev show ?thesis
    by (simp add: store_get_def empty_store_def)
qed

end
